theory Spec2Isabelle
  imports Main "HOL-Library.AList"
begin

section \<open>Values, dictionaries and errors\<close>

text \<open>
  The client of \<^verbatim>\<open>tap_medusa_v2/client.py\<close> keeps everything in Python dictionaries
  loaded from JSON: the tap's configuration, the body of a login response, the headers and
  the URL parameters it builds. A JSON value is null, a boolean, an integer, a float, a
  string, an array or an object. A float is a binary fraction \<open>m * 2^e\<close>, an infinity
  (\<open>Infinite True\<close> is the positive one) or not a number; Python's JSON reader accepts
  all of them. A dictionary is an association list in insertion order: \<^verbatim>\<open>d[k] = v\<close>
  replaces the value in place when the key is there and appends the pair otherwise, which
  is \<open>AList.update\<close>.
\<close>

datatype pyfloat =
    Finite int int
  | Infinite bool
  | NaN

datatype json =
    JNull
  | JBool bool
  | JInt int
  | JFloat pyfloat
  | JStr string
  | JArr "json list"
  | JObj "(string \<times> json) list"

type_synonym pydict = "(string \<times> json) list"

text \<open>The exceptions the modelled code can raise, as values.\<close>

datatype error =
    ValueError
  | TypeError
  | AttributeError
  | KeyError string
  | JSONDecodeError
  | OverflowError
  | ParserError
  | OSError
  | ConnectionError
  | PyException string  \<comment> \<open>\<^verbatim>\<open>raise Exception(msg)\<close>\<close>

text \<open>\<^verbatim>\<open>d.get(k)\<close>: the value, or \<^verbatim>\<open>None\<close> when the key is missing.\<close>

definition dict_get :: "pydict \<Rightarrow> string \<Rightarrow> json" where
  "dict_get d k = (case map_of d k of None \<Rightarrow> JNull | Some v \<Rightarrow> v)"

text \<open>\<^verbatim>\<open>k in d\<close>.\<close>

definition dict_has :: "pydict \<Rightarrow> string \<Rightarrow> bool" where
  "dict_has d k = (map_of d k \<noteq> None)"

text \<open>\<^verbatim>\<open>d[k] = v\<close>.\<close>

definition dict_set :: "pydict \<Rightarrow> string \<Rightarrow> json \<Rightarrow> pydict" where
  "dict_set d k v = AList.update k v d"

text \<open>\<^verbatim>\<open>d.update(e)\<close>: the pairs of \<open>e\<close> stored one by one, in order.\<close>

fun dict_update :: "pydict \<Rightarrow> pydict \<Rightarrow> pydict" where
  "dict_update d [] = d"
| "dict_update d ((k, v) # e) = dict_update (dict_set d k v) e"

text \<open>
  Python's truth value of an object: what \<^verbatim>\<open>if x\<close> and \<^verbatim>\<open>not x\<close> test. A float is
  false only when it is zero.
\<close>

fun truthy :: "json \<Rightarrow> bool" where
  "truthy JNull = False"
| "truthy (JBool b) = b"
| "truthy (JInt n) = (n \<noteq> 0)"
| "truthy (JFloat (Finite m e)) = (m \<noteq> 0)"
| "truthy (JFloat (Infinite s)) = True"
| "truthy (JFloat NaN) = True"
| "truthy (JStr s) = (s \<noteq> [])"
| "truthy (JArr xs) = (xs \<noteq> [])"
| "truthy (JObj kvs) = (kvs \<noteq> [])"

section \<open>Requests, responses and what the client does not own\<close>

record request =
  req_url :: string
  req_data :: pydict
  req_headers :: "(string \<times> string) list"

record response =
  status_code :: int
  reason :: string
  resp_url :: string
  resp_text :: string
  json_body :: "json option"  \<comment> \<open>what \<^verbatim>\<open>response.json()\<close> decodes, if the body is JSON\<close>

text \<open>
  What the client calls and does not define is given from outside, and the theorems hold
  for every choice of it:
  \<^item> \<open>int_of_str\<close> is the built-in \<^verbatim>\<open>int()\<close> on a string: the number, or \<open>None\<close>
    when it raises \<^verbatim>\<open>ValueError\<close>;
  \<^item> \<open>timestamp\<close> is \<^verbatim>\<open>datetime.timestamp()\<close> on a naive \<^verbatim>\<open>datetime\<close>. A naive
    \<^verbatim>\<open>datetime\<close> is given as the microseconds its calendar fields count from
    1970-01-01 00:00:00; \<^verbatim>\<open>timestamp()\<close> reads the fields as local time of the machine
    and gives the POSIX time, here in microseconds. On a machine set to UTC it is the
    identity;
  \<^item> \<open>validate_response\<close> is the method of the SDK's \<^verbatim>\<open>RESTStream\<close>: the message of
    the exception it raises on a response, or \<open>None\<close> when it accepts the response;
  \<^item> \<open>post\<close> is \<^verbatim>\<open>requests.post\<close> with the remote end: the response, or the
    exception raised when there is none;
  \<^item> \<open>open_error\<close> and \<open>dump_error\<close> are the exceptions of \<^verbatim>\<open>open(..., "w")\<close> and
    of \<^verbatim>\<open>json.dump\<close> into the opened file, \<open>None\<close> when they succeed;
  \<^item> \<open>py_repr\<close> is how Python prints a value that is not a string.
\<close>

record env =
  int_of_str :: "string \<Rightarrow> int option"
  timestamp :: "int \<Rightarrow> int"
  validate_response :: "response \<Rightarrow> string option"
  post :: "request \<Rightarrow> error + response"
  open_error :: "error option"
  dump_error :: "error option"
  py_repr :: "json \<Rightarrow> string"

subsection \<open>The built-in \<^verbatim>\<open>int()\<close>\<close>

text \<open>
  \<^verbatim>\<open>int(x)\<close>: an integer is itself, a boolean is 0 or 1, a finite float is cut towards
  zero, an infinity raises \<^verbatim>\<open>OverflowError\<close> and not-a-number \<^verbatim>\<open>ValueError\<close>, a string
  is parsed, and \<^verbatim>\<open>None\<close>, a list or a dictionary raise \<^verbatim>\<open>TypeError\<close>.
\<close>

definition float_trunc :: "int \<Rightarrow> int \<Rightarrow> int" where
  "float_trunc m e =
     (if 0 \<le> e then m * 2 ^ nat e
      else if 0 \<le> m then m div 2 ^ nat (- e)
      else - ((- m) div 2 ^ nat (- e)))"

fun py_int :: "(string \<Rightarrow> int option) \<Rightarrow> json \<Rightarrow> error + int" where
  "py_int parse_str (JInt n) = Inr n"
| "py_int parse_str (JBool b) = Inr (if b then 1 else 0)"
| "py_int parse_str (JFloat (Finite m e)) = Inr (float_trunc m e)"
| "py_int parse_str (JFloat (Infinite s)) = Inl OverflowError"
| "py_int parse_str (JFloat NaN) = Inl ValueError"
| "py_int parse_str (JStr s) =
     (case parse_str s of None \<Rightarrow> Inl ValueError | Some n \<Rightarrow> Inr n)"
| "py_int parse_str JNull = Inl TypeError"
| "py_int parse_str (JArr xs) = Inl TypeError"
| "py_int parse_str (JObj kvs) = Inl TypeError"

subsection \<open>Rounding\<close>

text \<open>
  \<^verbatim>\<open>round(x)\<close> of a time in microseconds to whole seconds: the nearest integer, and a
  tie goes to the even one.
\<close>

definition timestamp_round :: "int \<Rightarrow> int" where
  "timestamp_round us =
     (let q = us div 1000000; r = us mod 1000000
      in if r < 500000 then q
         else if 500000 < r then q + 1
         else if even q then q else q + 1)"

section \<open>The stream's constants and URLs\<close>

definition TOKEN_EXPIRY_BUFFER_SECONDS :: int where
  "TOKEN_EXPIRY_BUFFER_SECONDS = 120"

definition TOKEN_VALIDITY_MINUTES :: int where
  "TOKEN_VALIDITY_MINUTES = 60"

text \<open>\<^verbatim>\<open>s.rstrip("/")\<close> and \<^verbatim>\<open>s.endswith(suffix)\<close>.\<close>

definition rstrip_slash :: "string \<Rightarrow> string" where
  "rstrip_slash s = rev (dropWhile (\<lambda>c. c = CHR ''/'') (rev s))"

definition endswith :: "string \<Rightarrow> string \<Rightarrow> bool" where
  "endswith s suf = (length suf \<le> length s \<and> drop (length s - length suf) s = suf)"

text \<open>
  The two properties \<^verbatim>\<open>base_url\<close> and \<^verbatim>\<open>url_base\<close> as functions of the configured
  string: \<open>base_url_of\<close> is line 36 and \<open>url_base_of\<close> is line 40 applied to it.
\<close>

definition base_url_of :: "string \<Rightarrow> string" where
  "base_url_of root = rstrip_slash root"

definition url_base_of :: "string \<Rightarrow> string" where
  "url_base_of root =
     (if \<not> endswith (base_url_of root) ''/admin'' then base_url_of root @ ''/admin''
      else base_url_of root)"

text \<open>
  On the configuration: \<^verbatim>\<open>self.config.get("base_url", "")\<close> is the empty string when
  the key is missing; a value that is not a string has no \<^verbatim>\<open>rstrip\<close>.
\<close>

definition base_url :: "pydict \<Rightarrow> error + string" where
  "base_url cfg =
     (case map_of cfg ''base_url'' of
        None \<Rightarrow> Inr (base_url_of [])
      | Some (JStr s) \<Rightarrow> Inr (base_url_of s)
      | Some _ \<Rightarrow> Inl AttributeError)"

definition url_base :: "pydict \<Rightarrow> error + string" where
  "url_base cfg =
     (case map_of cfg ''base_url'' of
        None \<Rightarrow> Inr (url_base_of [])
      | Some (JStr s) \<Rightarrow> Inr (url_base_of s)
      | Some _ \<Rightarrow> Inl AttributeError)"

definition auth_url :: "pydict \<Rightarrow> error + string" where
  "auth_url cfg =
     (case base_url cfg of
        Inl e \<Rightarrow> Inl e
      | Inr b \<Rightarrow> Inr (b @ ''/auth/user/emailpass''))"

section \<open>The credential manager\<close>

text \<open>
  \<^verbatim>\<open>is_token_valid\<close> (lines 60 to 71). \<open>utcnow\<close> is the naive \<^verbatim>\<open>datetime\<close> that
  \<^verbatim>\<open>datetime.datetime.utcnow()\<close> returns, so \<open>now\<close> is the rounded
  \<^verbatim>\<open>timestamp()\<close> of it. The conversion of \<^verbatim>\<open>expires_in\<close> comes before both tests, so
  a value that \<^verbatim>\<open>int()\<close> rejects raises whatever the token is.
\<close>

definition is_token_valid :: "env \<Rightarrow> pydict \<Rightarrow> int \<Rightarrow> error + bool" where
  "is_token_valid env cfg utcnow =
     (let access_token = dict_get cfg ''access_token'';
          now = timestamp_round (timestamp env utcnow);
          expires_in = dict_get cfg ''expires_in''
      in case (if expires_in \<noteq> JNull
               then map_sum id Some (py_int (int_of_str env) expires_in)
               else Inr None) of
           Inl e \<Rightarrow> Inl e
         | Inr expires_in \<Rightarrow>
             if \<not> truthy access_token then Inr False
             else (case expires_in of
                     None \<Rightarrow> Inr False
                   | Some ex \<Rightarrow>
                       if ex = 0 then Inr False
                       else Inr (\<not> (ex - now < TOKEN_EXPIRY_BUFFER_SECONDS))))"

text \<open>
  The tap object as far as the client touches it: \<open>config\<close> is the dictionary
  \<^verbatim>\<open>self._tap._config\<close> (\<^verbatim>\<open>self.config\<close> is a read-only view of the same
  dictionary), \<open>config_file\<close> is the content of the file at \<^verbatim>\<open>self._tap.config_file\<close>,
  as the list of complete JSON documents in it, and \<open>sent\<close> records the calls of
  \<^verbatim>\<open>requests.post\<close> so far, oldest first.
\<close>

record tap =
  config :: pydict
  config_file :: "json list"
  sent :: "request list"

text \<open>\<^verbatim>\<open>auth_response.json()["token"]\<close> (line 93).\<close>

definition json_token :: "response \<Rightarrow> error + json" where
  "json_token r =
     (case json_body r of
        None \<Rightarrow> Inl JSONDecodeError
      | Some (JObj kvs) \<Rightarrow>
          (case map_of kvs ''token'' of
             None \<Rightarrow> Inl (KeyError ''token'')
           | Some v \<Rightarrow> Inr v)
      | Some _ \<Rightarrow> Inl TypeError)"

text \<open>
  \<^verbatim>\<open>get_access_token\<close> (lines 73 to 104). \<open>utcnow_check\<close> is what \<^verbatim>\<open>utcnow()\<close>
  returns inside \<^verbatim>\<open>is_token_valid\<close>, \<open>utcnow_issue\<close> what it returns in line 95, where
  60 minutes are added to the naive \<^verbatim>\<open>datetime\<close> before \<^verbatim>\<open>timestamp()\<close> is taken.
  Lines 94 and 96 change the dictionary before the file is opened. Opening the file with
  mode \<^verbatim>\<open>"w"\<close> truncates it; when \<^verbatim>\<open>json.dump\<close> fails after that, no complete
  document is left in it.
\<close>

definition get_access_token :: "env \<Rightarrow> int \<Rightarrow> int \<Rightarrow> tap \<Rightarrow> (error + json) \<times> tap" where
  "get_access_token env utcnow_check utcnow_issue t =
     (let current_token = dict_get (config t) ''access_token''
      in case is_token_valid env (config t) utcnow_check of
           Inl e \<Rightarrow> (Inl e, t)
         | Inr True \<Rightarrow> (Inr current_token, t)
         | Inr False \<Rightarrow>
             (let headers = [(''Content-Type'', ''application/json'')];
                  login_data = [(''email'', dict_get (config t) ''email''),
                                (''password'', dict_get (config t) ''password'')]
              in case auth_url (config t) of
                   Inl e \<Rightarrow> (Inl e, t)
                 | Inr url \<Rightarrow>
                     (let req = \<lparr>req_url = url, req_data = login_data, req_headers = headers\<rparr>;
                          t1 = t\<lparr>sent := sent t @ [req]\<rparr>
                      in case post env req of
                           Inl e \<Rightarrow> (Inl e, t1)
                         | Inr auth_response \<Rightarrow>
                             (case validate_response env auth_response of
                                Some e \<Rightarrow>
                                  (Inl (PyException (''Failed during token generation: '' @ e)),
                                   t1)
                              | None \<Rightarrow>
                                  (case json_token auth_response of
                                     Inl e \<Rightarrow> (Inl e, t1)
                                   | Inr new_token \<Rightarrow>
                                       (let config1 =
                                              dict_set (config t) ''access_token'' new_token;
                                            expiry_timestamp =
                                              timestamp_round
                                                (timestamp env
                                                  (utcnow_issue +
                                                   TOKEN_VALIDITY_MINUTES * 60 * 1000000));
                                            config2 =
                                              dict_set config1 ''expires_in''
                                                (JInt expiry_timestamp);
                                            t2 = t1\<lparr>config := config2\<rparr>
                                        in case open_error env of
                                             Some e \<Rightarrow> (Inl e, t2)
                                           | None \<Rightarrow>
                                               (case dump_error env of
                                                  Some e \<Rightarrow> (Inl e, t2\<lparr>config_file := []\<rparr>)
                                                | None \<Rightarrow>
                                                    (Inr new_token,
                                                     t2\<lparr>config_file := [JObj config2]\<rparr>))))))))"

section \<open>The paginated fetcher\<close>

text \<open>
  \<^verbatim>\<open>f"Bearer {token}"\<close> formats the token with \<^verbatim>\<open>str\<close>: a string is itself; how
  Python prints any other value is left to \<open>py_repr\<close>.
\<close>

definition py_str :: "(json \<Rightarrow> string) \<Rightarrow> json \<Rightarrow> string" where
  "py_str repr v = (case v of JStr s \<Rightarrow> s | _ \<Rightarrow> repr v)"

text \<open>\<^verbatim>\<open>http_headers\<close> (lines 46 to 58).\<close>

definition http_headers :: "env \<Rightarrow> int \<Rightarrow> int \<Rightarrow> tap \<Rightarrow> (error + pydict) \<times> tap" where
  "http_headers env utcnow_check utcnow_issue t =
     (let headers = [];
          headers = (if dict_has (config t) ''user_agent''
                     then dict_set headers ''User-Agent'' (dict_get (config t) ''user_agent'')
                     else headers)
      in if truthy (dict_get (config t) ''api_key'')
         then (Inr (dict_set headers ''x-medusa-access-token'' (dict_get (config t) ''api_key'')), t)
         else (case get_access_token env utcnow_check utcnow_issue t of
                 (Inl e, t') \<Rightarrow> (Inl e, t')
               | (Inr token, t') \<Rightarrow>
                   (Inr (dict_set headers ''Authorization''
                           (JStr (''Bearer '' @ py_str (py_repr env) token))), t')))"

text \<open>
  \<^verbatim>\<open>get_next_page_token\<close> (lines 106 to 115). \<open>extract_jsonpath\<close> is the SDK's helper
  and \<open>records_jsonpath\<close> the stream's attribute (\<^verbatim>\<open>"$[*]"\<close> unless a stream sets its
  own). \<^verbatim>\<open>previous_token or 0\<close> is 0 for \<^verbatim>\<open>None\<close> and the token otherwise. A function
  that falls off its end returns \<^verbatim>\<open>None\<close>.
\<close>

definition records_jsonpath :: string where
  "records_jsonpath = ''$[*]''"

definition get_next_page_token ::
  "(string \<Rightarrow> json \<Rightarrow> json list) \<Rightarrow> string \<Rightarrow> response \<Rightarrow> int option \<Rightarrow> error + int option" where
  "get_next_page_token extract_jsonpath jsonpath resp previous_token =
     (let previous_token = (case previous_token of None \<Rightarrow> 0 | Some n \<Rightarrow> n)
      in case json_body resp of
           None \<Rightarrow> Inl JSONDecodeError
         | Some res_json \<Rightarrow>
             (let records_len = length (extract_jsonpath jsonpath res_json)
              in if records_len \<noteq> 0 then Inr (Some (previous_token + int records_len))
                 else Inr None))"

subsection \<open>Dates and times\<close>

text \<open>
  The starting time is a \<^verbatim>\<open>datetime\<close> object (pendulum's class derives from Python's):
  calendar fields as written on the wall clock of its own time zone, and the offset of that
  zone from UTC in seconds (zero for UTC, 18000 for \<^verbatim>\<open>+05:00\<close>). Zones whose offset
  changes over the year are not modelled.
\<close>

record datetime =
  dt_year :: nat
  dt_month :: nat
  dt_day :: nat
  dt_hour :: nat
  dt_minute :: nat
  dt_second :: nat
  dt_microsecond :: nat
  dt_utcoffset :: int

definition is_leap :: "nat \<Rightarrow> bool" where
  "is_leap y = (y mod 4 = 0 \<and> (y mod 100 \<noteq> 0 \<or> y mod 400 = 0))"

definition days_in_month :: "nat \<Rightarrow> nat \<Rightarrow> nat" where
  "days_in_month y m =
     (if m = 2 then (if is_leap y then 29 else 28)
      else if m = 4 \<or> m = 6 \<or> m = 9 \<or> m = 11 then 30
      else 31)"

text \<open>
  \<^verbatim>\<open>start_date + datetime.timedelta(seconds=1)\<close>: one second later on the same wall
  clock, carried through minute, hour, day, month and year; Python's largest year is 9999.
\<close>

definition add_second :: "datetime \<Rightarrow> error + datetime" where
  "add_second d =
     (if dt_second d < 59 then Inr (d\<lparr>dt_second := dt_second d + 1\<rparr>)
      else if dt_minute d < 59 then Inr (d\<lparr>dt_second := 0, dt_minute := dt_minute d + 1\<rparr>)
      else if dt_hour d < 23
        then Inr (d\<lparr>dt_second := 0, dt_minute := 0, dt_hour := dt_hour d + 1\<rparr>)
      else if dt_day d < days_in_month (dt_year d) (dt_month d)
        then Inr (d\<lparr>dt_second := 0, dt_minute := 0, dt_hour := 0, dt_day := dt_day d + 1\<rparr>)
      else if dt_month d < 12
        then Inr (d\<lparr>dt_second := 0, dt_minute := 0, dt_hour := 0, dt_day := 1,
                    dt_month := dt_month d + 1\<rparr>)
      else if dt_year d < 9999
        then Inr (d\<lparr>dt_second := 0, dt_minute := 0, dt_hour := 0, dt_day := 1,
                    dt_month := 1, dt_year := dt_year d + 1\<rparr>)
      else Inl OverflowError)"

text \<open>Decimal digits of a number, and the two-digit fields of \<^verbatim>\<open>strftime\<close>.\<close>

fun str_nat :: "nat \<Rightarrow> string" where
  "str_nat n =
     (if n < 10 then [''0123456789'' ! n]
      else str_nat (n div 10) @ [''0123456789'' ! (n mod 10)])"

definition str_int :: "int \<Rightarrow> string" where
  "str_int i = (if i < 0 then CHR ''-'' # str_nat (nat (- i)) else str_nat (nat i))"

definition pad2 :: "nat \<Rightarrow> string" where
  "pad2 n = (if n < 10 then CHR ''0'' # str_nat n else str_nat n)"

text \<open>
  \<^verbatim>\<open>start_date.strftime("%Y-%m-%dT%H:%M:%SZ")\<close> (line 138): the fields of the wall
  clock, whatever the offset, and the letter Z. The year is printed as the C library
  prints it, without padding; it has four digits from the year 1000 on.
\<close>

definition strftime :: "datetime \<Rightarrow> string" where
  "strftime d =
     str_nat (dt_year d) @ ''-'' @ pad2 (dt_month d) @ ''-'' @ pad2 (dt_day d) @ ''T'' @
     pad2 (dt_hour d) @ '':'' @ pad2 (dt_minute d) @ '':'' @ pad2 (dt_second d) @ ''Z''"

text \<open>
  \<^verbatim>\<open>get_starting_time\<close> (lines 117 to 123). \<open>parse\<close> is pendulum's parser, applied to
  a truthy \<^verbatim>\<open>start_date\<close> before anything else; \<open>bookmark\<close> is what the SDK's
  \<^verbatim>\<open>get_starting_timestamp(context)\<close> returns. A \<^verbatim>\<open>datetime\<close> is always truthy, so
  \<^verbatim>\<open>rep_key or start_date\<close> is the bookmark unless it is \<^verbatim>\<open>None\<close>; a falsy
  \<^verbatim>\<open>start_date\<close> counts as none further on.
\<close>

definition get_starting_time ::
  "(json \<Rightarrow> error + datetime) \<Rightarrow> pydict \<Rightarrow> datetime option \<Rightarrow> error + datetime option" where
  "get_starting_time parse cfg bookmark =
     (let start_date = dict_get cfg ''start_date''
      in case (if truthy start_date then map_sum id Some (parse start_date) else Inr None) of
           Inl e \<Rightarrow> Inl e
         | Inr start_date \<Rightarrow>
             (let rep_key = bookmark
              in Inr (case rep_key of Some b \<Rightarrow> Some b | None \<Rightarrow> start_date)))"

text \<open>
  \<^verbatim>\<open>get_url_params\<close> (lines 125 to 140). \<open>additional_params\<close> and
  \<open>replication_key\<close> are the stream's attributes: the class sets the first to the empty
  dictionary, the second is a string or \<^verbatim>\<open>None\<close>.
\<close>

definition get_url_params ::
  "(json \<Rightarrow> error + datetime) \<Rightarrow> pydict \<Rightarrow> string option \<Rightarrow> pydict \<Rightarrow> datetime option
    \<Rightarrow> int option \<Rightarrow> error + pydict" where
  "get_url_params parse additional_params replication_key cfg bookmark next_page_token =
     (let params = [];
          params = (if additional_params \<noteq> [] then dict_update params additional_params
                    else params);
          params = (case next_page_token of
                      None \<Rightarrow> params
                    | Some n \<Rightarrow> if n \<noteq> 0 then dict_set params ''offset'' (JInt n) else params)
      in case get_starting_time parse cfg bookmark of
           Inl e \<Rightarrow> Inl e
         | Inr None \<Rightarrow> Inr params
         | Inr (Some start_date) \<Rightarrow>
             (case replication_key of
                None \<Rightarrow> Inr params
              | Some key \<Rightarrow>
                  if key = [] then Inr params
                  else (case add_second start_date of
                          Inl e \<Rightarrow> Inl e
                        | Inr start_date \<Rightarrow>
                            Inr (dict_set params (key @ ''[gt]'') (JStr (strftime start_date))))))"

text \<open>\<^verbatim>\<open>response_error_message\<close> (lines 142 to 153).\<close>

definition response_error_message :: "response \<Rightarrow> string" where
  "response_error_message r =
     (let error_type = (if 400 \<le> status_code r \<and> status_code r < 500 then ''Client''
                        else ''Server'')
      in str_int (status_code r) @ '' '' @ error_type @ '' Error: '' @ reason r @
         '' for url: '' @ resp_url r @ '' Response: '' @ resp_text r)"

section \<open>Notions used to state the properties\<close>

text \<open>The login request of lines 77 to 87, for a given authentication URL.\<close>

definition login_request :: "string \<Rightarrow> pydict \<Rightarrow> request" where
  "login_request url cfg =
     \<lparr>req_url = url,
      req_data = [(''email'', dict_get cfg ''email''), (''password'', dict_get cfg ''password'')],
      req_headers = [(''Content-Type'', ''application/json'')]\<rparr>"

text \<open>
  The tap after a login that succeeded: the request is on record, the token and the expiry
  are stored and the file holds the new configuration and nothing else (lines 94 to 100).
\<close>

definition refreshed :: "env \<Rightarrow> tap \<Rightarrow> string \<Rightarrow> json \<Rightarrow> int \<Rightarrow> tap" where
  "refreshed env t url tok utcnow_issue =
     (let cfg' = dict_set (dict_set (config t) ''access_token'' tok) ''expires_in''
                   (JInt (timestamp_round (timestamp env (utcnow_issue + 3600000000))))
      in t\<lparr>sent := sent t @ [login_request url (config t)],
           config := cfg', config_file := [JObj cfg']\<rparr>)"

text \<open>The header that lines 50 and 51 add.\<close>

definition user_agent_header :: "pydict \<Rightarrow> pydict" where
  "user_agent_header cfg =
     (if dict_has cfg ''user_agent'' then [(''User-Agent'', dict_get cfg ''user_agent'')] else [])"

text \<open>
  The credential states the client can reach on a machine whose \<^verbatim>\<open>timestamp()\<close> is
  \<open>tz\<close>, each with the \<^verbatim>\<open>utcnow()\<close> of line 95 in the call that last changed the
  configuration: a tap that has no token and no expiry yet, and every state a call of
  \<^verbatim>\<open>get_access_token\<close> leaves.
\<close>

inductive credential_trace :: "(int \<Rightarrow> int) \<Rightarrow> tap \<Rightarrow> int option \<Rightarrow> bool"
  for tz :: "int \<Rightarrow> int" where
  fresh: "\<not> dict_has (config t) ''access_token'' \<Longrightarrow> \<not> dict_has (config t) ''expires_in''
            \<Longrightarrow> credential_trace tz t None"
| call: "credential_trace tz t issued_at \<Longrightarrow> timestamp env = tz
          \<Longrightarrow> get_access_token env utcnow_check utcnow_issue t = (r, t')
          \<Longrightarrow> credential_trace tz t'
                (if config t' = config t then issued_at else Some utcnow_issue)"

subsection \<open>Stand-ins to run the model\<close>

text \<open>
  The theorems hold for every \<open>env\<close>. To run the model on concrete inputs, these
  definitions stand for the parts the client does not own, each on the inputs it is used
  on below.

  \<open>int_of_ascii\<close> is \<^verbatim>\<open>int()\<close> on a string of ASCII characters, as CPython 3.11 has
  it: surrounding whitespace (codes 9 to 13 and 32) is stripped, then come an optional sign
  and decimal digits, where single underscores may stand between digits, and more than
  4300 digits are refused. \<open>digits_val after_digit acc cs\<close> reads the rest of a digit
  string: \<open>after_digit\<close> says that the character just read was a digit, so that an
  underscore may follow and the string may end. On a string with characters outside ASCII
  the built-in may accept what the stand-in refuses.
\<close>

definition is_space :: "char \<Rightarrow> bool" where
  "is_space c = (of_char c \<in> {9, 10, 11, 12, 13, 32 :: nat})"

definition is_digit :: "char \<Rightarrow> bool" where
  "is_digit c = (48 \<le> (of_char c :: nat) \<and> (of_char c :: nat) \<le> 57)"

definition digit_val :: "char \<Rightarrow> int" where
  "digit_val c = of_char c - 48"

definition strip :: "string \<Rightarrow> string" where
  "strip s = rev (dropWhile is_space (rev (dropWhile is_space s)))"

fun digits_val :: "bool \<Rightarrow> int \<Rightarrow> string \<Rightarrow> int option" where
  "digits_val after_digit acc [] = (if after_digit then Some acc else None)"
| "digits_val after_digit acc (c # cs) =
     (if is_digit c then digits_val True (10 * acc + digit_val c) cs
      else if c = CHR ''_'' \<and> after_digit then digits_val False acc cs
      else None)"

definition int_of_ascii :: "string \<Rightarrow> int option" where
  "int_of_ascii s =
     (if 4300 < length (filter is_digit s) then None
      else case strip s of
             [] \<Rightarrow> None
           | c # cs \<Rightarrow>
               if c = CHR ''-'' then map_option uminus (digits_val False 0 cs)
               else if c = CHR ''+'' then digits_val False 0 cs
               else digits_val False 0 (c # cs))"

text \<open>
  \<open>sdk_validate_response\<close> is the check the SDK's \<^verbatim>\<open>validate_response\<close> makes: client
  and server error statuses, 400 to 599, raise with the stream's own
  \<^verbatim>\<open>response_error_message\<close>, and every other status is accepted.
\<close>

definition sdk_validate_response :: "response \<Rightarrow> string option" where
  "sdk_validate_response r =
     (if 400 \<le> status_code r \<and> status_code r < 600 then Some (response_error_message r)
      else None)"

text \<open>
  \<open>root_items\<close> stands for \<^verbatim>\<open>extract_jsonpath\<close> at the default path on a top-level
  array: its elements.
\<close>

definition root_items :: "string \<Rightarrow> json \<Rightarrow> json list" where
  "root_items path j = (case j of JArr xs \<Rightarrow> xs | _ \<Rightarrow> [])"

text \<open>
  \<open>new_york_timestamp\<close> is \<^verbatim>\<open>timestamp()\<close> of a naive \<^verbatim>\<open>datetime\<close> on a machine
  set to America/New_York, for the days around 10 March 2024: the fields are read as
  Eastern Standard Time (five hours behind UTC) up to 03:00 of that day, where the clocks
  go forward, and as Eastern Daylight Time (four hours behind) from then on. 1710039600 is
  2024-03-10 03:00:00 counted from 1970-01-01 00:00:00.
\<close>

definition new_york_timestamp :: "int \<Rightarrow> int" where
  "new_york_timestamp naive =
     (if naive < 1710039600 * 1000000 then naive + 18000 * 1000000
      else naive + 14400 * 1000000)"

text \<open>
  A machine set to UTC whose authentication endpoint answers with a token, and the same
  machine with an endpoint that refuses, answers without a token, or answers with a
  redirect status and a token.
\<close>

definition login_ok :: "request \<Rightarrow> response" where
  "login_ok req =
     \<lparr>status_code = 200, reason = ''OK'', resp_url = req_url req, resp_text = [],
      json_body = Some (JObj [(''token'', JStr ''tok-1'')])\<rparr>"

definition login_denied :: "request \<Rightarrow> response" where
  "login_denied req =
     \<lparr>status_code = 401, reason = ''Unauthorized'', resp_url = req_url req,
      resp_text = ''no'', json_body = None\<rparr>"

definition login_no_token :: "request \<Rightarrow> response" where
  "login_no_token req =
     \<lparr>status_code = 200, reason = ''OK'', resp_url = req_url req, resp_text = ''{}'',
      json_body = Some (JObj [])\<rparr>"

definition login_redirect :: "request \<Rightarrow> response" where
  "login_redirect req =
     \<lparr>status_code = 302, reason = ''Found'', resp_url = req_url req, resp_text = [],
      json_body = Some (JObj [(''token'', JStr ''tok-1'')])\<rparr>"

definition demo_env :: env where
  "demo_env =
     \<lparr>int_of_str = int_of_ascii, timestamp = (\<lambda>naive. naive),
      validate_response = sdk_validate_response, post = (\<lambda>req. Inr (login_ok req)),
      open_error = None, dump_error = None, py_repr = (\<lambda>v. [])\<rparr>"

definition demo_env_denied :: env where
  "demo_env_denied = demo_env\<lparr>post := (\<lambda>req. Inr (login_denied req))\<rparr>"

definition demo_env_no_token :: env where
  "demo_env_no_token = demo_env\<lparr>post := (\<lambda>req. Inr (login_no_token req))\<rparr>"

definition demo_env_redirect :: env where
  "demo_env_redirect = demo_env\<lparr>post := (\<lambda>req. Inr (login_redirect req))\<rparr>"

definition demo_env_new_york :: env where
  "demo_env_new_york = demo_env\<lparr>timestamp := new_york_timestamp\<rparr>"

text \<open>
  A tap configured with email and password and no token yet, the request its login posts,
  the same tap after the login of \<open>demo_env\<close>, and a tap configured with an API key.
\<close>

definition demo_tap :: tap where
  "demo_tap =
     \<lparr>config = [(''base_url'', JStr ''https://shop.example/''),
                (''email'', JStr ''owner@shop.example''), (''password'', JStr ''secret'')],
      config_file = [JObj [(''base_url'', JStr ''https://shop.example/''),
                (''email'', JStr ''owner@shop.example''), (''password'', JStr ''secret'')]],
      sent = []\<rparr>"

definition demo_request :: request where
  "demo_request = login_request ''https://shop.example/auth/user/emailpass'' (config demo_tap)"

definition demo_tap_refreshed :: tap where
  "demo_tap_refreshed =
     \<lparr>config = [(''base_url'', JStr ''https://shop.example/''),
                (''email'', JStr ''owner@shop.example''), (''password'', JStr ''secret''),
                (''access_token'', JStr ''tok-1''), (''expires_in'', JInt 1700003600)],
      config_file = [JObj [(''base_url'', JStr ''https://shop.example/''),
                (''email'', JStr ''owner@shop.example''), (''password'', JStr ''secret''),
                (''access_token'', JStr ''tok-1''), (''expires_in'', JInt 1700003600)]],
      sent = [demo_request]\<rparr>"

definition demo_tap_api_key :: tap where
  "demo_tap_api_key =
     \<lparr>config = [(''base_url'', JStr ''https://shop.example/''), (''api_key'', JStr ''sk_1''),
                (''user_agent'', JStr ''tap-medusa'')],
      config_file = [], sent = []\<rparr>"

text \<open>
  What Python's \<^verbatim>\<open>datetime\<close> takes the fields to mean: the fields it accepts, the
  day number of a date in the proleptic Gregorian calendar (\<^verbatim>\<open>toordinal\<close>; 1 is the
  first of January of the year 1), and the instant of an aware \<^verbatim>\<open>datetime\<close> in whole
  seconds since 1970-01-01T00:00:00 UTC (\<^verbatim>\<open>timestamp\<close>, without the microseconds).
\<close>

definition valid_datetime :: "datetime \<Rightarrow> bool" where
  "valid_datetime d =
     (1 \<le> dt_year d \<and> dt_year d \<le> 9999 \<and> 1 \<le> dt_month d \<and> dt_month d \<le> 12 \<and>
      1 \<le> dt_day d \<and> dt_day d \<le> days_in_month (dt_year d) (dt_month d) \<and>
      dt_hour d < 24 \<and> dt_minute d < 60 \<and> dt_second d < 60 \<and> dt_microsecond d < 1000000)"

definition days_before_year :: "nat \<Rightarrow> int" where
  "days_before_year y =
     (let y1 = int y - 1 in y1 * 365 + y1 div 4 - y1 div 100 + y1 div 400)"

definition days_before_month :: "nat \<Rightarrow> nat \<Rightarrow> nat" where
  "days_before_month y m =
     [0, 0, 31, 59, 90, 120, 151, 181, 212, 243, 273, 304, 334] ! m +
     (if 2 < m \<and> is_leap y then 1 else 0)"

definition toordinal :: "datetime \<Rightarrow> int" where
  "toordinal d =
     days_before_year (dt_year d) + int (days_before_month (dt_year d) (dt_month d)) +
     int (dt_day d)"

definition epoch_second :: "datetime \<Rightarrow> int" where
  "epoch_second d =
     (toordinal d - 719163) * 86400 + int (dt_hour d) * 3600 + int (dt_minute d) * 60 +
     int (dt_second d) - dt_utcoffset d"

text \<open>The parameters before the date filter is added (lines 129 to 133).\<close>

definition params_before_filter :: "pydict \<Rightarrow> int option \<Rightarrow> pydict" where
  "params_before_filter additional_params next_page_token =
     (let params = (if additional_params \<noteq> [] then dict_update [] additional_params else [])
      in case next_page_token of
           None \<Rightarrow> params
         | Some n \<Rightarrow> if n \<noteq> 0 then dict_set params ''offset'' (JInt n) else params)"

text \<open>
  The first second of 2024 in UTC, and the same wall clock five hours east of UTC, which
  is an instant five hours earlier.
\<close>

definition utc_2024 :: datetime where
  "utc_2024 = \<lparr>dt_year = 2024, dt_month = 1, dt_day = 1, dt_hour = 0, dt_minute = 0,
                dt_second = 0, dt_microsecond = 0, dt_utcoffset = 0\<rparr>"

definition plus5_2024 :: datetime where
  "plus5_2024 = utc_2024\<lparr>dt_utcoffset := 18000\<rparr>"

section \<open>Dictionaries\<close>

lemma dict_get_set: "dict_get (dict_set d k v) k' = (if k' = k then v else dict_get d k')"
  by (simp add: dict_get_def dict_set_def update_conv')

lemma map_of_dict_set: "map_of (dict_set d k v) k' = (if k' = k then Some v else map_of d k')"
  by (simp add: dict_set_def update_conv')

lemma dict_has_set: "dict_has (dict_set d k v) k' = (k' = k \<or> dict_has d k')"
  by (simp add: dict_has_def map_of_dict_set)

section \<open>Base URL\<close>

lemma rstrip_slash_idem: "rstrip_slash (rstrip_slash s) = rstrip_slash s"
  unfolding rstrip_slash_def by simp

lemma rstrip_slash_admin: "rstrip_slash (b @ ''/admin'') = b @ ''/admin''"
  unfolding rstrip_slash_def by simp

lemma endswith_append: "endswith (b @ suf) suf"
  unfolding endswith_def by simp

lemma endswith_split: "endswith b suf \<Longrightarrow> \<exists>p. b = p @ suf"
  unfolding endswith_def by (metis append_take_drop_id)

lemma endswith_admin_rstrip: "endswith b ''/admin'' \<Longrightarrow> rstrip_slash b = b"
  using endswith_split rstrip_slash_admin by fastforce

text \<open>
  C8. Normalising the base URL (strip the trailing slashes of the configured root, then
  append \<^verbatim>\<open>/admin\<close> unless the string ends with it) is idempotent: on every string,
  normalising the normalised string gives it back.
\<close>

theorem url_base_of_idempotent: "url_base_of (url_base_of root) = url_base_of root"
  unfolding url_base_of_def base_url_of_def
  by (simp add: rstrip_slash_idem rstrip_slash_admin endswith_append endswith_admin_rstrip)

section \<open>Token validity\<close>

text \<open>
  C1, as the code has it. The current time is what the code reads: the rounded
  \<^verbatim>\<open>timestamp()\<close> of \<^verbatim>\<open>utcnow()\<close>. When \<^verbatim>\<open>expires_in\<close> is missing or null the
  answer is false. When \<^verbatim>\<open>int()\<close> accepts it, the answer is true exactly when the token
  is truthy (not missing, null or empty), the expiry is not 0 and the expiry minus the
  current time is at least 120 seconds. When \<^verbatim>\<open>int()\<close> rejects it, the call raises that
  error and returns nothing, with or without a token.
\<close>

theorem is_token_valid_cases:
  "(dict_get cfg ''expires_in'' = JNull \<longrightarrow> is_token_valid env cfg utcnow = Inr False) \<and>
   (\<forall>ex. dict_get cfg ''expires_in'' \<noteq> JNull \<and>
         py_int (int_of_str env) (dict_get cfg ''expires_in'') = Inr ex \<longrightarrow>
       is_token_valid env cfg utcnow =
         Inr (truthy (dict_get cfg ''access_token'') \<and> ex \<noteq> 0 \<and>
              120 \<le> ex - timestamp_round (timestamp env utcnow))) \<and>
   (\<forall>e. dict_get cfg ''expires_in'' \<noteq> JNull \<and>
        py_int (int_of_str env) (dict_get cfg ''expires_in'') = Inl e \<longrightarrow>
       is_token_valid env cfg utcnow = Inl e)"
  by (auto simp: is_token_valid_def Let_def TOKEN_EXPIRY_BUFFER_SECONDS_def)

lemma int_of_ascii_examples:
  "int_of_ascii ''1700000119'' = Some 1700000119"
  "int_of_ascii ''never'' = None"
  by (simp_all add: int_of_ascii_def strip_def is_space_def is_digit_def digit_val_def)

text \<open>
  On a machine set to UTC at 1700000000.0: an expiry one hour ahead, an expiry 119 seconds
  ahead written as a string, a float expiry 120.5 seconds ahead, no expiry, and an expiry
  that is a list.
\<close>

theorem is_token_valid_cases_witness:
  "is_token_valid demo_env [(''access_token'', JStr ''tok''), (''expires_in'', JInt 1700003600)]
     1700000000000000 = Inr True \<and>
   is_token_valid demo_env
     [(''access_token'', JStr ''tok''), (''expires_in'', JStr ''1700000119'')]
     1700000000000000 = Inr False \<and>
   is_token_valid demo_env
     [(''access_token'', JStr ''tok''), (''expires_in'', JFloat (Finite 3400000241 (- 1)))]
     1700000000000000 = Inr True \<and>
   is_token_valid demo_env [(''access_token'', JStr ''tok'')] 1700000000000000 = Inr False \<and>
   is_token_valid demo_env [(''access_token'', JStr ''tok''), (''expires_in'', JArr [])]
     1700000000000000 = Inl TypeError"
  using
    is_token_valid_cases
      [of "[(''access_token'', JStr ''tok''), (''expires_in'', JInt 1700003600)]" demo_env
        1700000000000000]
    is_token_valid_cases
      [of "[(''access_token'', JStr ''tok''), (''expires_in'', JStr ''1700000119'')]" demo_env
        1700000000000000]
    is_token_valid_cases
      [of "[(''access_token'', JStr ''tok''), (''expires_in'', JFloat (Finite 3400000241 (- 1)))]"
        demo_env 1700000000000000]
    is_token_valid_cases [of "[(''access_token'', JStr ''tok'')]" demo_env 1700000000000000]
    is_token_valid_cases
      [of "[(''access_token'', JStr ''tok''), (''expires_in'', JArr [])]" demo_env
        1700000000000000]
  by (simp add: dict_get_def timestamp_round_def demo_env_def int_of_ascii_examples
      float_trunc_def)

text \<open>
  The claim as stated fails: with no access token cached at all and an \<^verbatim>\<open>expires_in\<close>
  that is not a number, line 66 raises \<^verbatim>\<open>ValueError\<close> before line 67 looks at the
  token, so the call does not return false.
\<close>

theorem is_token_valid_counterexample:
  "\<not> dict_has [(''expires_in'', JStr ''never'')] ''access_token'' \<and>
   is_token_valid demo_env [(''expires_in'', JStr ''never'')] 1700000000000000 = Inl ValueError"
  by (simp add: dict_has_def is_token_valid_def dict_get_def demo_env_def int_of_ascii_examples)

section \<open>Pagination\<close>

text \<open>
  C5. On a response whose body is JSON, \<^verbatim>\<open>get_next_page_token\<close> counts the records the
  JSON path finds; it returns \<^verbatim>\<open>None\<close> when there are none, and otherwise the previous
  token (0 when there is none) plus the count.
\<close>

theorem get_next_page_token_count:
  "json_body resp = Some j \<Longrightarrow>
   get_next_page_token extract_jsonpath path resp previous_token =
     Inr (if length (extract_jsonpath path j) = 0 then None
          else Some ((case previous_token of None \<Rightarrow> 0 | Some n \<Rightarrow> n) +
                     int (length (extract_jsonpath path j))))"
  by (simp add: get_next_page_token_def)

text \<open>No records after token 57: none. 25 records after token 50: 75. Two on the first page: 2.\<close>

theorem get_next_page_token_count_witness:
  "get_next_page_token root_items records_jsonpath
     \<lparr>status_code = 200, reason = ''OK'', resp_url = ''https://shop.example/admin/orders'',
      resp_text = ''[]'', json_body = Some (JArr [])\<rparr> (Some 57) = Inr None \<and>
   get_next_page_token root_items records_jsonpath
     \<lparr>status_code = 200, reason = ''OK'', resp_url = ''https://shop.example/admin/orders'',
      resp_text = [], json_body = Some (JArr (replicate 25 (JObj [])))\<rparr> (Some 50)
     = Inr (Some 75) \<and>
   get_next_page_token root_items records_jsonpath
     \<lparr>status_code = 200, reason = ''OK'', resp_url = ''https://shop.example/admin/orders'',
      resp_text = [], json_body = Some (JArr [JObj [], JObj []])\<rparr> None = Inr (Some 2)"
  using
    get_next_page_token_count
      [of "\<lparr>status_code = 200, reason = ''OK'',
            resp_url = ''https://shop.example/admin/orders'',
            resp_text = ''[]'', json_body = Some (JArr [])\<rparr>"
          "JArr []" root_items records_jsonpath "Some 57"]
    get_next_page_token_count
      [of "\<lparr>status_code = 200, reason = ''OK'',
            resp_url = ''https://shop.example/admin/orders'',
            resp_text = [], json_body = Some (JArr (replicate 25 (JObj [])))\<rparr>"
          "JArr (replicate 25 (JObj []))" root_items records_jsonpath "Some 50"]
    get_next_page_token_count
      [of "\<lparr>status_code = 200, reason = ''OK'',
            resp_url = ''https://shop.example/admin/orders'',
            resp_text = [], json_body = Some (JArr [JObj [], JObj []])\<rparr>"
          "JArr [JObj [], JObj []]" root_items records_jsonpath None]
  by (simp add: root_items_def)

lemma get_next_page_token_not_json:
  "json_body resp = None \<Longrightarrow>
   get_next_page_token extract_jsonpath path resp previous_token = Inl JSONDecodeError"
  by (simp add: get_next_page_token_def)

section \<open>Access token\<close>

subsection \<open>Rounding and the validity window\<close>

lemma timestamp_round_shift_even:
  "even k \<Longrightarrow> timestamp_round (us + k * 1000000) = timestamp_round us + k"
  unfolding timestamp_round_def Let_def by simp

lemma timestamp_round_validity:
  "timestamp_round (us + 3600000000) = timestamp_round us + 3600"
  using timestamp_round_shift_even [of 3600 us] by simp

subsection \<open>The outcomes of \<^verbatim>\<open>get_access_token\<close>\<close>

lemma get_access_token_valid:
  "is_token_valid env (config t) u1 = Inr True \<Longrightarrow>
   get_access_token env u1 u2 t = (Inr (dict_get (config t) ''access_token''), t)"
  by (simp add: get_access_token_def)

lemma get_access_token_check_error:
  assumes "is_token_valid env (config t) u1 = Inl e"
  shows "get_access_token env u1 u2 t = (Inl e, t)"
  using assms by (simp add: get_access_token_def Let_def)

lemma get_access_token_url_error:
  assumes "is_token_valid env (config t) u1 = Inr False" "auth_url (config t) = Inl e"
  shows "get_access_token env u1 u2 t = (Inl e, t)"
  using assms by (simp add: get_access_token_def Let_def)

lemma get_access_token_post_error:
  assumes "is_token_valid env (config t) u1 = Inr False" "auth_url (config t) = Inr url"
    "post env (login_request url (config t)) = Inl e"
  shows "get_access_token env u1 u2 t =
           (Inl e, t\<lparr>sent := sent t @ [login_request url (config t)]\<rparr>)"
  using assms by (simp add: get_access_token_def login_request_def Let_def)

lemma get_access_token_rejected:
  assumes "is_token_valid env (config t) u1 = Inr False" "auth_url (config t) = Inr url"
    "post env (login_request url (config t)) = Inr resp"
    "validate_response env resp = Some detail"
  shows "get_access_token env u1 u2 t =
           (Inl (PyException (''Failed during token generation: '' @ detail)),
            t\<lparr>sent := sent t @ [login_request url (config t)]\<rparr>)"
  using assms by (simp add: get_access_token_def login_request_def Let_def)

lemma get_access_token_no_token:
  assumes "is_token_valid env (config t) u1 = Inr False" "auth_url (config t) = Inr url"
    "post env (login_request url (config t)) = Inr resp"
    "validate_response env resp = None" "json_token resp = Inl e"
  shows "get_access_token env u1 u2 t =
           (Inl e, t\<lparr>sent := sent t @ [login_request url (config t)]\<rparr>)"
  using assms by (simp add: get_access_token_def login_request_def Let_def)

lemma get_access_token_open_failed:
  assumes "is_token_valid env (config t) u1 = Inr False" "auth_url (config t) = Inr url"
    "post env (login_request url (config t)) = Inr resp"
    "validate_response env resp = None" "json_token resp = Inr tok"
    "open_error env = Some e"
  shows "get_access_token env u1 u2 t =
           (Inl e, (refreshed env t url tok u2)\<lparr>config_file := config_file t\<rparr>)"
  using assms
  by (simp add: get_access_token_def login_request_def Let_def TOKEN_VALIDITY_MINUTES_def
      refreshed_def)

lemma get_access_token_dump_failed:
  assumes "is_token_valid env (config t) u1 = Inr False" "auth_url (config t) = Inr url"
    "post env (login_request url (config t)) = Inr resp"
    "validate_response env resp = None" "json_token resp = Inr tok"
    "open_error env = None" "dump_error env = Some e"
  shows "get_access_token env u1 u2 t =
           (Inl e, (refreshed env t url tok u2)\<lparr>config_file := []\<rparr>)"
  using assms
  by (simp add: get_access_token_def login_request_def Let_def TOKEN_VALIDITY_MINUTES_def
      refreshed_def)

lemma get_access_token_refreshed:
  assumes "is_token_valid env (config t) u1 = Inr False" "auth_url (config t) = Inr url"
    "post env (login_request url (config t)) = Inr resp"
    "validate_response env resp = None" "json_token resp = Inr tok"
    "open_error env = None" "dump_error env = None"
  shows "get_access_token env u1 u2 t = (Inr tok, refreshed env t url tok u2)"
  using assms
  by (simp add: get_access_token_def login_request_def Let_def TOKEN_VALIDITY_MINUTES_def
      refreshed_def)

lemma refreshed_fields:
  "sent (refreshed env t url tok u) = sent t @ [login_request url (config t)]"
  "dict_get (config (refreshed env t url tok u)) ''access_token'' = tok"
  "dict_get (config (refreshed env t url tok u)) ''expires_in'' =
     JInt (timestamp_round (timestamp env (u + 3600000000)))"
  "dict_has (config (refreshed env t url tok u)) ''expires_in''"
  "config_file (refreshed env t url tok u) = [JObj (config (refreshed env t url tok u))]"
  by (simp_all add: refreshed_def Let_def dict_get_set dict_has_set)

lemma refreshed_other_keys:
  "k \<noteq> ''access_token'' \<Longrightarrow> k \<noteq> ''expires_in'' \<Longrightarrow>
   map_of (config (refreshed env t url tok u)) k = map_of (config t) k"
  by (simp add: refreshed_def Let_def map_of_dict_set)

text \<open>
  Every call ends in one of four ways: the tap untouched (a valid token, or an error before
  anything is posted); only the request on record (the post, the validation or the body
  failed); the dictionary changed and the file not written (opening or dumping failed); or
  the login complete.
\<close>

lemma get_access_token_outcomes:
  assumes "get_access_token env u1 u2 t = (r, t')"
  shows "(t' = t \<and> (isl r \<or> (is_token_valid env (config t) u1 = Inr True \<and>
                              r = Inr (dict_get (config t) ''access_token'')))) \<or>
         (\<exists>url. isl r \<and> is_token_valid env (config t) u1 = Inr False \<and>
                t' = t\<lparr>sent := sent t @ [login_request url (config t)]\<rparr>) \<or>
         (\<exists>url tok f. isl r \<and> is_token_valid env (config t) u1 = Inr False \<and>
                (open_error env \<noteq> None \<or> dump_error env \<noteq> None) \<and>
                t' = (refreshed env t url tok u2)\<lparr>config_file := f\<rparr>) \<or>
         (\<exists>url tok. is_token_valid env (config t) u1 = Inr False \<and> r = Inr tok \<and>
                    open_error env = None \<and> dump_error env = None \<and>
                    t' = refreshed env t url tok u2)"
proof (cases "is_token_valid env (config t) u1")
  case (Inl e)
  from get_access_token_check_error [of env t u1 e u2] Inl assms
  have "r = Inl e" "t' = t" by simp_all
  then show ?thesis by simp
next
  case (Inr b)
  show ?thesis
  proof (cases b)
    case True
    from get_access_token_valid [of env t u1 u2] Inr True assms
    have "r = Inr (dict_get (config t) ''access_token'')" "t' = t" by simp_all
    then show ?thesis using Inr True by simp
  next
    case False
    have inv: "is_token_valid env (config t) u1 = Inr False" using Inr False by simp
    show ?thesis
    proof (cases "auth_url (config t)")
      case (Inl e)
      from get_access_token_url_error [of env t u1 e u2] inv Inl assms
      have "r = Inl e" "t' = t" by simp_all
      then show ?thesis by simp
    next
      case url: (Inr url)
      show ?thesis
      proof (cases "post env (login_request url (config t))")
        case (Inl e)
        from get_access_token_post_error [of env t u1 url e u2] inv url Inl assms
        have "isl r" "t' = t\<lparr>sent := sent t @ [login_request url (config t)]\<rparr>"
          by simp_all
        then show ?thesis using inv by blast
      next
        case resp: (Inr resp)
        show ?thesis
        proof (cases "validate_response env resp")
          case (Some d)
          from get_access_token_rejected [of env t u1 url resp d u2] inv url resp Some assms
          have "isl r" "t' = t\<lparr>sent := sent t @ [login_request url (config t)]\<rparr>"
            by simp_all
          then show ?thesis using inv by blast
        next
          case None
          show ?thesis
          proof (cases "json_token resp")
            case (Inl e)
            from get_access_token_no_token [of env t u1 url resp e u2] inv url resp None Inl
              assms
            have "isl r" "t' = t\<lparr>sent := sent t @ [login_request url (config t)]\<rparr>"
              by simp_all
            then show ?thesis using inv by blast
          next
            case tok: (Inr tok)
            show ?thesis
            proof (cases "open_error env")
              case (Some e)
              from get_access_token_open_failed [of env t u1 url resp tok e u2] inv url resp
                None tok Some assms
              have "isl r"
                "t' = (refreshed env t url tok u2)\<lparr>config_file := config_file t\<rparr>"
                by simp_all
              then show ?thesis using inv Some by blast
            next
              case op: None
              show ?thesis
              proof (cases "dump_error env")
                case (Some e)
                from get_access_token_dump_failed [of env t u1 url resp tok e u2] inv url
                  resp None tok op Some assms
                have "isl r" "t' = (refreshed env t url tok u2)\<lparr>config_file := []\<rparr>"
                  by simp_all
                then show ?thesis using inv Some by blast
              next
                case du: None
                from get_access_token_refreshed [of env t u1 url resp tok u2] inv url resp
                  None tok op du assms
                have "r = Inr tok" "t' = refreshed env t url tok u2" by simp_all
                then show ?thesis using inv op du by blast
              qed
            qed
          qed
        qed
      qed
    qed
  qed
qed

lemma credential_trace_expiry:
  "credential_trace tz t issued_at \<Longrightarrow>
   (case issued_at of
      None \<Rightarrow> \<not> dict_has (config t) ''expires_in''
    | Some u \<Rightarrow> dict_has (config t) ''expires_in'' \<and>
               dict_get (config t) ''expires_in'' =
                 JInt (timestamp_round (tz (u + 3600000000))))"
proof (induction rule: credential_trace.induct)
  case (fresh t)
  then show ?case by simp
next
  case (call t issued_at env u1 u2 r t')
  show ?case
  proof (cases "config t' = config t")
    case True
    then show ?thesis using call.IH by (simp split: option.splits)
  next
    case False
    from get_access_token_outcomes [OF call.hyps(3)] False
    obtain url tok f where "config t' = config ((refreshed env t url tok u2)\<lparr>config_file := f\<rparr>)"
      by (auto simp: refreshed_def Let_def)
    then have "config t' = config (refreshed env t url tok u2)" by simp
    then show ?thesis using False call.hyps(2) by (simp add: refreshed_fields)
  qed
qed

subsection \<open>The example tap\<close>

lemma demo_invalid: "is_token_valid env (config demo_tap) u = Inr False"
  by (simp add: demo_tap_def is_token_valid_def dict_get_def)

lemma demo_auth_url:
  "auth_url (config demo_tap) = Inr ''https://shop.example/auth/user/emailpass''"
  by (simp add: demo_tap_def auth_url_def base_url_def base_url_of_def rstrip_slash_def)

lemma demo_denied_message:
  "sdk_validate_response (login_denied demo_request) =
     Some ''401 Client Error: Unauthorized for url: https://shop.example/auth/user/emailpass Response: no''"
  by (simp add: sdk_validate_response_def login_denied_def response_error_message_def
      demo_request_def login_request_def str_int_def)

lemma demo_login_ok:
  "get_access_token demo_env 1700000000000000 1700000000400000 demo_tap
     = (Inr (JStr ''tok-1''), demo_tap_refreshed)"
  using get_access_token_refreshed [of demo_env demo_tap 1700000000000000
      "''https://shop.example/auth/user/emailpass''" "login_ok demo_request"
      "JStr ''tok-1''" 1700000000400000] demo_invalid demo_auth_url
  by (simp add: demo_env_def sdk_validate_response_def login_ok_def json_token_def
      refreshed_def Let_def timestamp_round_def demo_request_def demo_tap_def
      demo_tap_refreshed_def dict_set_def)

lemma demo_login_denied:
  "get_access_token demo_env_denied 1700000000000000 1700000000400000 demo_tap
     = (Inl (PyException ''Failed during token generation: 401 Client Error: Unauthorized for url: https://shop.example/auth/user/emailpass Response: no''),
        demo_tap\<lparr>sent := [demo_request]\<rparr>)"
  using get_access_token_rejected [of demo_env_denied demo_tap 1700000000000000
      "''https://shop.example/auth/user/emailpass''" "login_denied demo_request" _
      1700000000400000] demo_invalid demo_auth_url demo_denied_message
  by (simp add: demo_env_denied_def demo_env_def demo_request_def) (simp add: demo_tap_def)

subsection \<open>A valid token is returned from the cache\<close>

text \<open>
  C4. When \<^verbatim>\<open>is_token_valid\<close> is true, \<^verbatim>\<open>get_access_token\<close> returns the cached token
  and the tap is what it was: no request is posted, the configuration and the file are
  untouched. Consequently, after a call that returned a truthy token, a second call made
  within the validity window of the stored expiry (the expiry is not 0 and lies 120
  seconds or more after the current time as the code reads it) returns that token and
  leaves the tap as it is, whatever the endpoint would answer.
\<close>

theorem cached_token_no_login:
  "(is_token_valid env (config t) u1 = Inr True \<longrightarrow>
      get_access_token env u1 u2 t = (Inr (dict_get (config t) ''access_token''), t)) \<and>
   (get_access_token env u1 u2 t = (Inr tok, t') \<and> truthy tok \<and>
    dict_get (config t') ''expires_in'' \<noteq> JNull \<and>
    py_int (int_of_str env') (dict_get (config t') ''expires_in'') = Inr ex \<and> ex \<noteq> 0 \<and>
    120 \<le> ex - timestamp_round (timestamp env' u3) \<longrightarrow>
      get_access_token env' u3 u4 t' = (Inr tok, t'))"
proof (intro conjI impI)
  assume "is_token_valid env (config t) u1 = Inr True"
  then show "get_access_token env u1 u2 t = (Inr (dict_get (config t) ''access_token''), t)"
    by (rule get_access_token_valid)
next
  assume a: "get_access_token env u1 u2 t = (Inr tok, t') \<and> truthy tok \<and>
    dict_get (config t') ''expires_in'' \<noteq> JNull \<and>
    py_int (int_of_str env') (dict_get (config t') ''expires_in'') = Inr ex \<and> ex \<noteq> 0 \<and>
    120 \<le> ex - timestamp_round (timestamp env' u3)"
  then have g: "get_access_token env u1 u2 t = (Inr tok, t')" by simp
  from get_access_token_outcomes [OF g]
  have tok: "dict_get (config t') ''access_token'' = tok"
    by (auto simp: refreshed_fields)
  have "is_token_valid env' (config t') u3 = Inr True"
    using a tok
    by (simp add: is_token_valid_def Let_def TOKEN_EXPIRY_BUFFER_SECONDS_def)
  from get_access_token_valid [OF this, of u4] tok
  show "get_access_token env' u3 u4 t' = (Inr tok, t')" by simp
qed

text \<open>
  After the login of the example, a call 400 milliseconds later and a call 3480 seconds
  later both return the token without a request, though the endpoint would now refuse.
\<close>

theorem cached_token_no_login_witness:
  "get_access_token demo_env_denied 1700000000400000 1700000000800000 demo_tap_refreshed
     = (Inr (JStr ''tok-1''), demo_tap_refreshed) \<and>
   get_access_token demo_env_denied 1700003480400000 1700003480800000 demo_tap_refreshed
     = (Inr (JStr ''tok-1''), demo_tap_refreshed)"
proof -
  have v: "is_token_valid demo_env_denied (config demo_tap_refreshed) 1700000000400000 = Inr True"
    by (simp add: demo_tap_refreshed_def is_token_valid_def dict_get_def timestamp_round_def
        TOKEN_EXPIRY_BUFFER_SECONDS_def demo_env_denied_def demo_env_def)
  have rnd: "timestamp_round 1700003480400000 = 1700003480"
    by (simp add: timestamp_round_def)
  have ex: "dict_get (config demo_tap_refreshed) ''expires_in'' = JInt 1700003600"
    by (simp add: demo_tap_refreshed_def dict_get_def)
  from cached_token_no_login [of demo_env_denied demo_tap_refreshed 1700000000400000
      1700000000800000] v
  have a: "get_access_token demo_env_denied 1700000000400000 1700000000800000
      demo_tap_refreshed = (Inr (JStr ''tok-1''), demo_tap_refreshed)"
    by (simp add: demo_tap_refreshed_def dict_get_def)
  from cached_token_no_login [of demo_env demo_tap 1700000000000000 1700000000400000
      "JStr ''tok-1''" demo_tap_refreshed demo_env_denied 1700003600 1700003480400000
      1700003480800000] demo_login_ok ex
  have b: "get_access_token demo_env_denied 1700003480400000 1700003480800000
      demo_tap_refreshed = (Inr (JStr ''tok-1''), demo_tap_refreshed)"
    by (simp add: rnd demo_env_denied_def demo_env_def)
  from a b show ?thesis by simp
qed

subsection \<open>The login exchange\<close>

text \<open>
  C3, as the code has it. With no valid token, the call posts one request, the configured
  email and password to the authentication URL. The SDK's \<^verbatim>\<open>validate_response\<close> decides
  what fails: when it does its check on the answer, an answer with a status from 400 to
  599 makes the call raise \<^verbatim>\<open>Exception("Failed during token generation: ...")\<close> around
  the message of the HTTP error, and an answer with any other status, 2xx or not, is
  accepted. A token is returned exactly when the answer is accepted, its body is a JSON
  object with a \<^verbatim>\<open>token\<close> entry and the file is written, and it is that entry.
  Which error an accepted answer without a token raises is not part of the statement.
\<close>

theorem login_exchange_outcome:
  assumes "is_token_valid env (config t) u1 = Inr False" "auth_url (config t) = Inr url"
    and "post env (login_request url (config t)) = Inr resp"
    and "validate_response env resp = sdk_validate_response resp"
  shows "sent (snd (get_access_token env u1 u2 t)) = sent t @ [login_request url (config t)] \<and>
         (400 \<le> status_code resp \<and> status_code resp < 600 \<longrightarrow>
            fst (get_access_token env u1 u2 t) =
              Inl (PyException (''Failed during token generation: '' @
                                response_error_message resp))) \<and>
         (\<forall>tok. fst (get_access_token env u1 u2 t) = Inr tok \<longleftrightarrow>
            \<not> (400 \<le> status_code resp \<and> status_code resp < 600) \<and>
            json_token resp = Inr tok \<and> open_error env = None \<and> dump_error env = None)"
proof (cases "400 \<le> status_code resp \<and> status_code resp < 600")
  case True
  then have "validate_response env resp = Some (response_error_message resp)"
    using assms(4) by (simp add: sdk_validate_response_def)
  from get_access_token_rejected [of env t u1 url resp _ u2, OF assms(1-3) this] True
  show ?thesis by simp
next
  case False
  then have acc: "validate_response env resp = None"
    using assms(4) by (simp add: sdk_validate_response_def)
  obtain r t' where g: "get_access_token env u1 u2 t = (r, t')" by force
  have s: "sent t' = sent t @ [login_request url (config t)]"
  proof -
    show ?thesis
    proof (cases "json_token resp")
      case (Inl e)
      from get_access_token_no_token [of env t u1 url resp e u2] assms(1-3) acc Inl g
      show ?thesis by simp
    next
      case (Inr tok)
      show ?thesis
      proof (cases "open_error env")
        case (Some e)
        from get_access_token_open_failed [of env t u1 url resp tok e u2] assms(1-3) acc Inr
          Some g
        show ?thesis by (simp add: refreshed_def Let_def)
      next
        case None
        show ?thesis
        proof (cases "dump_error env")
          case (Some e)
          from get_access_token_dump_failed [of env t u1 url resp tok e u2] assms(1-3) acc Inr
            None Some g
          show ?thesis by (simp add: refreshed_def Let_def)
        next
          case du: None
          from get_access_token_refreshed [of env t u1 url resp tok u2] assms(1-3) acc Inr
            None du g
          show ?thesis by (simp add: refreshed_fields)
        qed
      qed
    qed
  qed
  have iff: "r = Inr tok \<longleftrightarrow>
      json_token resp = Inr tok \<and> open_error env = None \<and> dump_error env = None" for tok
  proof (cases "json_token resp")
    case (Inl e)
    from get_access_token_no_token [of env t u1 url resp e u2] assms(1-3) acc Inl g
    show ?thesis by auto
  next
    case (Inr tok')
    show ?thesis
    proof (cases "open_error env")
      case (Some e)
      from get_access_token_open_failed [of env t u1 url resp tok' e u2] assms(1-3) acc Inr
        Some g
      show ?thesis by auto
    next
      case None
      show ?thesis
      proof (cases "dump_error env")
        case (Some e)
        from get_access_token_dump_failed [of env t u1 url resp tok' e u2] assms(1-3) acc
          Inr None Some g
        show ?thesis by auto
      next
        case du: None
        from get_access_token_refreshed [of env t u1 url resp tok' u2] assms(1-3) acc Inr
          None du g
        show ?thesis using Inr None du by auto
      qed
    qed
  qed
  have "\<not> (400 \<le> status_code resp \<and> status_code resp < 600)" by (rule False)
  with s iff show ?thesis unfolding g by auto
qed

text \<open>The example endpoint that refuses with 401, and the one that answers with a token.\<close>

theorem login_exchange_outcome_witness:
  "sent (snd (get_access_token demo_env_denied 1700000000000000 1700000000400000 demo_tap))
     = [demo_request] \<and>
   fst (get_access_token demo_env_denied 1700000000000000 1700000000400000 demo_tap) =
     Inl (PyException ''Failed during token generation: 401 Client Error: Unauthorized for url: https://shop.example/auth/user/emailpass Response: no'') \<and>
   fst (get_access_token demo_env 1700000000000000 1700000000400000 demo_tap)
     = Inr (JStr ''tok-1'')"
proof -
  have m: "response_error_message (login_denied demo_request) =
      ''401 Client Error: Unauthorized for url: https://shop.example/auth/user/emailpass Response: no''"
    using demo_denied_message by (simp add: sdk_validate_response_def login_denied_def)
  from login_exchange_outcome [of demo_env_denied demo_tap 1700000000000000
      "''https://shop.example/auth/user/emailpass''" "login_denied demo_request"
      1700000000400000] demo_invalid demo_auth_url m
  have 1: "sent (snd (get_access_token demo_env_denied 1700000000000000 1700000000400000
      demo_tap)) = [demo_request] \<and>
    fst (get_access_token demo_env_denied 1700000000000000 1700000000400000 demo_tap) =
     Inl (PyException ''Failed during token generation: 401 Client Error: Unauthorized for url: https://shop.example/auth/user/emailpass Response: no'')"
    by (simp add: demo_env_denied_def demo_env_def demo_request_def [symmetric])
       (simp add: login_denied_def demo_tap_def)
  from login_exchange_outcome [of demo_env demo_tap 1700000000000000
      "''https://shop.example/auth/user/emailpass''" "login_ok demo_request"
      1700000000400000] demo_invalid demo_auth_url
  have 2: "fst (get_access_token demo_env 1700000000000000 1700000000400000 demo_tap)
     = Inr (JStr ''tok-1'')"
    by (simp add: demo_env_def demo_request_def [symmetric] login_ok_def json_token_def)
  from 1 2 show ?thesis by simp
qed

text \<open>
  The claim as stated fails: an answer with the status 302 is not a 2xx answer, the SDK's
  check accepts it, and the call returns the token of its body.
\<close>

theorem login_exchange_counterexample:
  "status_code (login_redirect demo_request) = 302 \<and>
   get_access_token demo_env_redirect 1700000000000000 1700000000400000 demo_tap
     = (Inr (JStr ''tok-1''), demo_tap_refreshed)"
  using get_access_token_refreshed [of demo_env_redirect demo_tap 1700000000000000
      "''https://shop.example/auth/user/emailpass''" "login_redirect demo_request"
      "JStr ''tok-1''" 1700000000400000] demo_invalid demo_auth_url
  by (simp add: demo_env_redirect_def demo_env_def sdk_validate_response_def login_redirect_def
      json_token_def refreshed_def Let_def timestamp_round_def demo_request_def demo_tap_def
      demo_tap_refreshed_def dict_set_def)

subsection \<open>A successful refresh\<close>

text \<open>
  What a successful login leaves. When the token is not valid, the answer is accepted and
  carries a token and the file is written, \<^verbatim>\<open>get_access_token\<close> returns the new token;
  the configuration is the old one with \<^verbatim>\<open>access_token\<close> set to it and
  \<^verbatim>\<open>expires_in\<close> set to the rounded \<^verbatim>\<open>timestamp()\<close> of \<^verbatim>\<open>utcnow()\<close> plus 60
  minutes, every other key as it was; and the file holds that configuration as its only
  document. On a machine whose \<^verbatim>\<open>timestamp()\<close> moves with the wall clock over that
  hour, the expiry is the current time as the code reads it plus 3600 seconds, and then
  every expiry in a credential state the client reaches from a tap without credentials is
  the issue time plus 3600 seconds.
\<close>

theorem refresh_replaces_credentials:
  "(is_token_valid env (config t) u1 = Inr False \<and> auth_url (config t) = Inr url \<and>
    post env (login_request url (config t)) = Inr resp \<and>
    validate_response env resp = None \<and> json_token resp = Inr tok \<and>
    open_error env = None \<and> dump_error env = None \<longrightarrow>
      (let cfg' = dict_set (dict_set (config t) ''access_token'' tok) ''expires_in''
                    (JInt (timestamp_round (timestamp env (u2 + 60 * 60 * 1000000))))
       in get_access_token env u1 u2 t =
            (Inr tok, t\<lparr>sent := sent t @ [login_request url (config t)],
                         config := cfg', config_file := [JObj cfg']\<rparr>) \<and>
          dict_get cfg' ''access_token'' = tok \<and>
          dict_get cfg' ''expires_in'' =
            JInt (timestamp_round (timestamp env (u2 + 60 * 60 * 1000000))) \<and>
          (\<forall>k. k \<noteq> ''access_token'' \<and> k \<noteq> ''expires_in'' \<longrightarrow>
               map_of cfg' k = map_of (config t) k))) \<and>
   (timestamp env (u2 + 60 * 60 * 1000000) = timestamp env u2 + 60 * 60 * 1000000 \<longrightarrow>
      timestamp_round (timestamp env (u2 + 60 * 60 * 1000000)) =
        timestamp_round (timestamp env u2) + 60 * 60) \<and>
   ((\<forall>u. tz (u + 60 * 60 * 1000000) = tz u + 60 * 60 * 1000000) \<longrightarrow>
    (\<forall>s issued_at. credential_trace tz s issued_at \<longrightarrow>
      (\<forall>e. map_of (config s) ''expires_in'' = Some e \<longrightarrow>
           (\<exists>u. issued_at = Some u \<and> e = JInt (timestamp_round (tz u) + 60 * 60)))))"
proof (intro conjI impI allI)
  assume a: "is_token_valid env (config t) u1 = Inr False \<and> auth_url (config t) = Inr url \<and>
    post env (login_request url (config t)) = Inr resp \<and>
    validate_response env resp = None \<and> json_token resp = Inr tok \<and>
    open_error env = None \<and> dump_error env = None"
  from get_access_token_refreshed [of env t u1 url resp tok u2] a
  show "let cfg' = dict_set (dict_set (config t) ''access_token'' tok) ''expires_in''
                    (JInt (timestamp_round (timestamp env (u2 + 60 * 60 * 1000000))))
       in get_access_token env u1 u2 t =
            (Inr tok, t\<lparr>sent := sent t @ [login_request url (config t)],
                         config := cfg', config_file := [JObj cfg']\<rparr>) \<and>
          dict_get cfg' ''access_token'' = tok \<and>
          dict_get cfg' ''expires_in'' =
            JInt (timestamp_round (timestamp env (u2 + 60 * 60 * 1000000))) \<and>
          (\<forall>k. k \<noteq> ''access_token'' \<and> k \<noteq> ''expires_in'' \<longrightarrow>
               map_of cfg' k = map_of (config t) k)"
    by (simp add: refreshed_def Let_def dict_get_set map_of_dict_set)
next
  assume "timestamp env (u2 + 60 * 60 * 1000000) = timestamp env u2 + 60 * 60 * 1000000"
  then show "timestamp_round (timestamp env (u2 + 60 * 60 * 1000000)) =
        timestamp_round (timestamp env u2) + 60 * 60"
    using timestamp_round_validity [of "timestamp env u2"] by simp
next
  fix s issued_at e
  assume tz: "\<forall>u. tz (u + 60 * 60 * 1000000) = tz u + 60 * 60 * 1000000"
    and tr: "credential_trace tz s issued_at"
    and e: "map_of (config s) ''expires_in'' = Some e"
  from e have h: "dict_has (config s) ''expires_in''" "dict_get (config s) ''expires_in'' = e"
    by (simp_all add: dict_has_def dict_get_def)
  from tz have tz': "tz (u + 3600000000) = tz u + 3600000000" for u by simp
  from credential_trace_expiry [OF tr] h
  show "\<exists>u. issued_at = Some u \<and> e = JInt (timestamp_round (tz u) + 60 * 60)"
    by (cases issued_at) (auto simp: tz' timestamp_round_validity)
qed

text \<open>The login of the example on a machine set to UTC, at 1700000000.4.\<close>

theorem refresh_replaces_credentials_witness:
  "get_access_token demo_env 1700000000000000 1700000000400000 demo_tap
     = (Inr (JStr ''tok-1''), demo_tap_refreshed) \<and>
   credential_trace (\<lambda>naive. naive) demo_tap_refreshed (Some 1700000000400000) \<and>
   map_of (config demo_tap_refreshed) ''expires_in'' =
     Some (JInt (timestamp_round 1700000000400000 + 60 * 60))"
proof -
  have ok: "post demo_env demo_request = Inr (login_ok demo_request)"
    "validate_response demo_env (login_ok demo_request) = None"
    "json_token (login_ok demo_request) = Inr (JStr ''tok-1'')"
    "open_error demo_env = None" "dump_error demo_env = None"
    "timestamp demo_env = (\<lambda>naive. naive)"
    by (simp_all add: demo_env_def sdk_validate_response_def login_ok_def json_token_def)
  note inst = refresh_replaces_credentials
      [of demo_env demo_tap 1700000000000000 "''https://shop.example/auth/user/emailpass''"
          "login_ok demo_request" "JStr ''tok-1''" 1700000000400000 "\<lambda>naive. naive"]
  have rnd: "timestamp_round 1700003600400000 = 1700003600"
    "timestamp_round 1700000000400000 = 1700000000"
    by (simp_all add: timestamp_round_def)
  from inst demo_invalid demo_auth_url ok
  have g: "get_access_token demo_env 1700000000000000 1700000000400000
             demo_tap = (Inr (JStr ''tok-1''), demo_tap_refreshed)"
    by (simp add: demo_request_def [symmetric] Let_def rnd)
       (simp add: demo_tap_def demo_tap_refreshed_def dict_set_def)
  have f: "credential_trace (\<lambda>naive. naive) demo_tap None"
    by (rule credential_trace.fresh) (simp_all add: demo_tap_def dict_has_def)
  from credential_trace.call [OF f ok(6) g]
  have tr: "credential_trace (\<lambda>naive. naive) demo_tap_refreshed (Some 1700000000400000)"
    by (simp add: demo_tap_def demo_tap_refreshed_def)
  have m: "map_of (config demo_tap_refreshed) ''expires_in'' = Some (JInt 1700003600)"
    by (simp add: demo_tap_refreshed_def)
  from inst tr m g show ?thesis by (simp add: rnd)
qed

text \<open>
  C2 on a machine that is not set to UTC. Line 95 adds 60 minutes to the naive
  \<^verbatim>\<open>utcnow()\<close> and takes \<^verbatim>\<open>timestamp()\<close> of the sum, which reads it as local time.
  On a machine set to America/New_York, with \<^verbatim>\<open>utcnow()\<close> at 2024-03-10 02:15:00
  (1710036900 counted from 1970), the current time as the code reads it is 1710054900 and
  the login stores the expiry 1710054900: the time of issuance plus nothing, not plus 60
  minutes. The token it has just stored is not valid one second later.
\<close>

theorem refresh_expiry_on_local_clock:
  "timestamp_round (timestamp demo_env_new_york 1710036900000000) = 1710054900 \<and>
   fst (get_access_token demo_env_new_york 1710036900000000 1710036900000000 demo_tap)
     = Inr (JStr ''tok-1'') \<and>
   dict_get (config (snd (get_access_token demo_env_new_york 1710036900000000
       1710036900000000 demo_tap))) ''expires_in'' = JInt 1710054900 \<and>
   is_token_valid demo_env_new_york
     (config (snd (get_access_token demo_env_new_york 1710036900000000 1710036900000000
        demo_tap))) 1710036901000000 = Inr False"
proof -
  have ok: "post demo_env_new_york demo_request = Inr (login_ok demo_request)"
    "validate_response demo_env_new_york (login_ok demo_request) = None"
    "json_token (login_ok demo_request) = Inr (JStr ''tok-1'')"
    "open_error demo_env_new_york = None" "dump_error demo_env_new_york = None"
    by (simp_all add: demo_env_new_york_def demo_env_def sdk_validate_response_def
        login_ok_def json_token_def)
  have ts: "timestamp demo_env_new_york 1710036900000000 = 1710054900000000"
    "timestamp demo_env_new_york 1710040500000000 = 1710054900000000"
    "timestamp demo_env_new_york 1710036901000000 = 1710054901000000"
    by (simp_all add: demo_env_new_york_def demo_env_def new_york_timestamp_def)
  have rnd: "timestamp_round 1710054900000000 = 1710054900"
    "timestamp_round 1710054901000000 = 1710054901"
    by (simp_all add: timestamp_round_def)
  from get_access_token_refreshed [of demo_env_new_york demo_tap 1710036900000000
      "''https://shop.example/auth/user/emailpass''" "login_ok demo_request"
      "JStr ''tok-1''" 1710036900000000] demo_invalid demo_auth_url ok
  have g: "get_access_token demo_env_new_york 1710036900000000 1710036900000000 demo_tap
      = (Inr (JStr ''tok-1''),
         refreshed demo_env_new_york demo_tap ''https://shop.example/auth/user/emailpass''
           (JStr ''tok-1'') 1710036900000000)"
    by (simp add: demo_request_def [symmetric])
  show ?thesis
    unfolding g
    by (simp add: refreshed_fields ts rnd is_token_valid_def Let_def
        TOKEN_EXPIRY_BUFFER_SECONDS_def)
qed

subsection \<open>A failed login\<close>

text \<open>
  C10. When the token is not valid and \<^verbatim>\<open>validate_response\<close> rejects the answer of the
  login, \<^verbatim>\<open>get_access_token\<close> raises and the configuration and the file are what they
  were before the call.
\<close>

theorem failed_login_keeps_credentials:
  assumes "is_token_valid env (config t) u1 = Inr False" "auth_url (config t) = Inr url"
    and "post env (login_request url (config t)) = Inr resp"
    and "validate_response env resp = Some detail"
  shows "isl (fst (get_access_token env u1 u2 t)) \<and>
         config (snd (get_access_token env u1 u2 t)) = config t \<and>
         config_file (snd (get_access_token env u1 u2 t)) = config_file t"
  using get_access_token_rejected [of env t u1 url resp detail u2] assms by simp

theorem failed_login_keeps_credentials_witness:
  "isl (fst (get_access_token demo_env_denied 1700000000000000 1700000000400000 demo_tap)) \<and>
   config (snd (get_access_token demo_env_denied 1700000000000000 1700000000400000 demo_tap))
     = config demo_tap \<and>
   config_file (snd (get_access_token demo_env_denied 1700000000000000 1700000000400000
     demo_tap)) = config_file demo_tap"
  using failed_login_keeps_credentials [of demo_env_denied demo_tap 1700000000000000
      "''https://shop.example/auth/user/emailpass''" "login_denied demo_request" _
      1700000000400000]
    demo_invalid demo_auth_url demo_denied_message
  by (simp add: demo_request_def demo_env_denied_def demo_env_def)

text \<open>
  More generally, whatever \<^verbatim>\<open>get_access_token\<close> raises before it comes to write the
  file, the configuration and the file are what they were before the call. When opening
  the file fails, the call raises with the new token and expiry already in the dictionary
  and the file as it was.
\<close>

theorem get_access_token_failure_frame:
  "(open_error env = None \<and> dump_error env = None \<and>
    get_access_token env u1 u2 t = (Inl e, t') \<longrightarrow>
      config t' = config t \<and> config_file t' = config_file t) \<and>
   (is_token_valid env (config t) u1 = Inr False \<and> auth_url (config t) = Inr url \<and>
    post env (login_request url (config t)) = Inr resp \<and>
    validate_response env resp = None \<and> json_token resp = Inr tok \<and>
    open_error env = Some e' \<longrightarrow>
      fst (get_access_token env u1 u2 t) = Inl e' \<and>
      dict_get (config (snd (get_access_token env u1 u2 t))) ''access_token'' = tok \<and>
      config_file (snd (get_access_token env u1 u2 t)) = config_file t)"
proof (intro conjI impI)
  assume a: "open_error env = None \<and> dump_error env = None \<and>
    get_access_token env u1 u2 t = (Inl e, t')"
  then have g: "get_access_token env u1 u2 t = (Inl e, t')" by simp
  from get_access_token_outcomes [OF g] a
  show "config t' = config t" "config_file t' = config_file t" by auto
next
  assume a: "is_token_valid env (config t) u1 = Inr False \<and> auth_url (config t) = Inr url \<and>
    post env (login_request url (config t)) = Inr resp \<and>
    validate_response env resp = None \<and> json_token resp = Inr tok \<and>
    open_error env = Some e'"
  from get_access_token_open_failed [of env t u1 url resp tok e' u2] a
  show "fst (get_access_token env u1 u2 t) = Inl e'"
    "dict_get (config (snd (get_access_token env u1 u2 t))) ''access_token'' = tok"
    "config_file (snd (get_access_token env u1 u2 t)) = config_file t"
    by (simp_all add: refreshed_fields)
qed

theorem get_access_token_failure_frame_witness:
  "config (demo_tap\<lparr>sent := [demo_request]\<rparr>) = config demo_tap \<and>
   config_file (demo_tap\<lparr>sent := [demo_request]\<rparr>) = config_file demo_tap \<and>
   fst (get_access_token (demo_env\<lparr>open_error := Some OSError\<rparr>) 1700000000000000
          1700000000400000 demo_tap) = Inl OSError \<and>
   dict_get (config (snd (get_access_token (demo_env\<lparr>open_error := Some OSError\<rparr>)
          1700000000000000 1700000000400000 demo_tap))) ''access_token'' = JStr ''tok-1'' \<and>
   config_file (snd (get_access_token (demo_env\<lparr>open_error := Some OSError\<rparr>)
          1700000000000000 1700000000400000 demo_tap)) = config_file demo_tap"
proof -
  have d: "open_error demo_env_denied = None" "dump_error demo_env_denied = None"
    by (simp_all add: demo_env_denied_def demo_env_def)
  from get_access_token_failure_frame [of demo_env_denied 1700000000000000 1700000000400000
      demo_tap _ "demo_tap\<lparr>sent := [demo_request]\<rparr>"] d demo_login_denied
  have 1: "config (demo_tap\<lparr>sent := [demo_request]\<rparr>) = config demo_tap \<and>
   config_file (demo_tap\<lparr>sent := [demo_request]\<rparr>) = config_file demo_tap"
    by simp
  have ok: "post (demo_env\<lparr>open_error := Some OSError\<rparr>) demo_request
      = Inr (login_ok demo_request)"
    "validate_response (demo_env\<lparr>open_error := Some OSError\<rparr>) (login_ok demo_request) = None"
    "json_token (login_ok demo_request) = Inr (JStr ''tok-1'')"
    "open_error (demo_env\<lparr>open_error := Some OSError\<rparr>) = Some OSError"
    by (simp_all add: demo_env_def sdk_validate_response_def login_ok_def json_token_def)
  from get_access_token_failure_frame [of "demo_env\<lparr>open_error := Some OSError\<rparr>"
      1700000000000000 1700000000400000 demo_tap _ _
      "''https://shop.example/auth/user/emailpass''" "login_ok demo_request"
      "JStr ''tok-1''" OSError] demo_invalid demo_auth_url ok
  have 2: "fst (get_access_token (demo_env\<lparr>open_error := Some OSError\<rparr>) 1700000000000000
          1700000000400000 demo_tap) = Inl OSError \<and>
   dict_get (config (snd (get_access_token (demo_env\<lparr>open_error := Some OSError\<rparr>)
          1700000000000000 1700000000400000 demo_tap))) ''access_token'' = JStr ''tok-1'' \<and>
   config_file (snd (get_access_token (demo_env\<lparr>open_error := Some OSError\<rparr>)
          1700000000000000 1700000000400000 demo_tap)) = config_file demo_tap"
    by (simp add: demo_request_def [symmetric])
  from 1 2 show ?thesis by simp
qed

section \<open>Request headers\<close>

text \<open>
  C9. With a truthy \<^verbatim>\<open>api_key\<close>, \<^verbatim>\<open>http_headers\<close> returns the User-Agent header (when
  the key \<^verbatim>\<open>user_agent\<close> is in the configuration) and \<^verbatim>\<open>x-medusa-access-token\<close> with
  the key, and the tap is untouched: \<^verbatim>\<open>get_access_token\<close> is not called. Otherwise it
  calls \<^verbatim>\<open>get_access_token\<close>; it raises what that raises, and with the token it returns
  the User-Agent header and \<^verbatim>\<open>Authorization: Bearer\<close> with the token. So the headers
  it returns hold exactly one of the two authentication headers.
\<close>

theorem http_headers_authentication:
  "(truthy (dict_get (config t) ''api_key'') \<longrightarrow>
      http_headers env u1 u2 t =
        (Inr (user_agent_header (config t) @
              [(''x-medusa-access-token'', dict_get (config t) ''api_key'')]), t)) \<and>
   (\<not> truthy (dict_get (config t) ''api_key'') \<longrightarrow>
      (\<forall>e t'. get_access_token env u1 u2 t = (Inl e, t') \<longrightarrow>
          http_headers env u1 u2 t = (Inl e, t')) \<and>
      (\<forall>token t'. get_access_token env u1 u2 t = (Inr token, t') \<longrightarrow>
          http_headers env u1 u2 t =
            (Inr (user_agent_header (config t) @
                  [(''Authorization'', JStr (''Bearer '' @ py_str (py_repr env) token))]), t'))) \<and>
   (\<forall>h t'. http_headers env u1 u2 t = (Inr h, t') \<longrightarrow>
      dict_has h ''User-Agent'' = dict_has (config t) ''user_agent'' \<and>
      dict_has h ''x-medusa-access-token'' = truthy (dict_get (config t) ''api_key'') \<and>
      dict_has h ''Authorization'' = (\<not> truthy (dict_get (config t) ''api_key'')))"
proof -
  have a: "truthy (dict_get (config t) ''api_key'') \<Longrightarrow>
      http_headers env u1 u2 t =
        (Inr (user_agent_header (config t) @
              [(''x-medusa-access-token'', dict_get (config t) ''api_key'')]), t)"
    by (simp add: http_headers_def user_agent_header_def dict_set_def)
  have b: "\<not> truthy (dict_get (config t) ''api_key'') \<Longrightarrow>
      get_access_token env u1 u2 t = (Inl e, t') \<Longrightarrow>
      http_headers env u1 u2 t = (Inl e, t')" for e t'
    by (simp add: http_headers_def)
  have c: "\<not> truthy (dict_get (config t) ''api_key'') \<Longrightarrow>
      get_access_token env u1 u2 t = (Inr token, t') \<Longrightarrow>
      http_headers env u1 u2 t =
        (Inr (user_agent_header (config t) @
              [(''Authorization'', JStr (''Bearer '' @ py_str (py_repr env) token))]), t')" for token t'
    by (simp add: http_headers_def user_agent_header_def dict_set_def)
  have d: "dict_has h ''User-Agent'' = dict_has (config t) ''user_agent'' \<and>
      dict_has h ''x-medusa-access-token'' = truthy (dict_get (config t) ''api_key'') \<and>
      dict_has h ''Authorization'' = (\<not> truthy (dict_get (config t) ''api_key''))"
    if h: "http_headers env u1 u2 t = (Inr h, t')" for h t'
  proof (cases "truthy (dict_get (config t) ''api_key'')")
    case True
    with a h have "h = user_agent_header (config t) @
              [(''x-medusa-access-token'', dict_get (config t) ''api_key'')]" by simp
    then show ?thesis using True by (simp add: user_agent_header_def dict_has_def)
  next
    case False
    obtain r t'' where g: "get_access_token env u1 u2 t = (r, t'')" by force
    show ?thesis
    proof (cases r)
      case (Inl e)
      with b [OF False] g h show ?thesis by simp
    next
      case (Inr token)
      with c [OF False] g h have "h = user_agent_header (config t) @
              [(''Authorization'', JStr (''Bearer '' @ py_str (py_repr env) token))]" by simp
      then show ?thesis using False by (simp add: user_agent_header_def dict_has_def)
    qed
  qed
  from a b c d show ?thesis by blast
qed

text \<open>
  The tap with an API key, where the endpoint would refuse; the example login; and the
  example tap at the endpoint that refuses.
\<close>

theorem http_headers_authentication_witness:
  "http_headers demo_env_denied 1700000000000000 1700000000400000 demo_tap_api_key
     = (Inr [(''User-Agent'', JStr ''tap-medusa''), (''x-medusa-access-token'', JStr ''sk_1'')],
        demo_tap_api_key) \<and>
   http_headers demo_env 1700000000000000 1700000000400000 demo_tap
     = (Inr [(''Authorization'', JStr ''Bearer tok-1'')], demo_tap_refreshed) \<and>
   fst (http_headers demo_env_denied 1700000000000000 1700000000400000 demo_tap)
     = Inl (PyException ''Failed during token generation: 401 Client Error: Unauthorized for url: https://shop.example/auth/user/emailpass Response: no'')"
proof -
  note g = demo_login_ok
  note d = demo_login_denied
  have k: "\<not> truthy (dict_get (config demo_tap) ''api_key'')"
    by (simp add: demo_tap_def dict_get_def)
  from http_headers_authentication [of demo_tap_api_key demo_env_denied 1700000000000000
      1700000000400000]
  have 1: "http_headers demo_env_denied 1700000000000000 1700000000400000 demo_tap_api_key
     = (Inr [(''User-Agent'', JStr ''tap-medusa''), (''x-medusa-access-token'', JStr ''sk_1'')],
        demo_tap_api_key)"
    by (simp add: demo_tap_api_key_def dict_get_def user_agent_header_def dict_has_def)
  from http_headers_authentication [of demo_tap demo_env 1700000000000000 1700000000400000]
    k g
  have 2: "http_headers demo_env 1700000000000000 1700000000400000 demo_tap
     = (Inr [(''Authorization'', JStr ''Bearer tok-1'')], demo_tap_refreshed)"
    by (simp add: user_agent_header_def py_str_def) (simp add: demo_tap_def dict_has_def)
  from http_headers_authentication [of demo_tap demo_env_denied 1700000000000000
      1700000000400000] k d
  have 3: "fst (http_headers demo_env_denied 1700000000000000 1700000000400000 demo_tap)
     = Inl (PyException ''Failed during token generation: 401 Client Error: Unauthorized for url: https://shop.example/auth/user/emailpass Response: no'')"
    by simp
  from 1 2 3 show ?thesis by simp
qed

section \<open>URL parameters\<close>

subsection \<open>The offset\<close>

lemma map_of_dict_update_absent:
  "map_of e k = None \<Longrightarrow> map_of (dict_update d e) k = map_of d k"
proof (induction e arbitrary: d)
  case Nil
  then show ?case by simp
next
  case (Cons a e)
  obtain k' v where a: "a = (k', v)" by (cases a)
  with Cons.prems have "k \<noteq> k'" "map_of e k = None" by (auto split: if_splits)
  with Cons.IH [of "dict_set d k' v"] a show ?case by (simp add: map_of_dict_set)
qed

lemma gt_key_not_offset: "key @ ''[gt]'' \<noteq> ''offset''"
proof
  assume "key @ ''[gt]'' = ''offset''"
  then have "last (key @ ''[gt]'') = last ''offset''" by simp
  then show False by simp
qed

text \<open>
  C7. When the stream's static parameters have no \<^verbatim>\<open>offset\<close> of their own (the class
  sets them to the empty dictionary), the parameters \<^verbatim>\<open>get_url_params\<close> returns hold
  \<^verbatim>\<open>offset\<close>, equal to the token, exactly when the token is present and not zero.
\<close>

theorem offset_parameter:
  assumes "map_of additional_params ''offset'' = None"
    and "get_url_params parse additional_params replication_key cfg bookmark next_page_token
           = Inr params"
  shows "map_of params ''offset'' =
           (case next_page_token of
              None \<Rightarrow> None
            | Some n \<Rightarrow> if n \<noteq> 0 then Some (JInt n) else None)"
proof -
  define base where "base = (if additional_params \<noteq> [] then dict_update [] additional_params else [])"
  define withoff where "withoff = (case next_page_token of None \<Rightarrow> base
      | Some n \<Rightarrow> if n \<noteq> 0 then dict_set base ''offset'' (JInt n) else base)"
  have b: "map_of base ''offset'' = None"
    using assms(1) by (simp add: base_def map_of_dict_update_absent)
  have w: "map_of withoff ''offset'' =
           (case next_page_token of None \<Rightarrow> None
            | Some n \<Rightarrow> if n \<noteq> 0 then Some (JInt n) else None)"
    using b by (simp add: withoff_def map_of_dict_set split: option.splits)
  from assms(2) have "params = withoff \<or> (\<exists>key s. params = dict_set withoff (key @ ''[gt]'') (JStr s))"
    unfolding get_url_params_def Let_def base_def [symmetric]
    unfolding withoff_def [symmetric]
    by (auto split: sum.splits option.splits if_splits)
  then show ?thesis using w gt_key_not_offset by (auto simp: map_of_dict_set)
qed

theorem offset_parameter_witness:
  "map_of [(''offset'', JInt 50)] ''offset'' = Some (JInt 50) \<and>
   get_url_params (\<lambda>j. Inl ParserError) [(''limit'', JInt 100)] None [] None (Some 50)
     = Inr [(''limit'', JInt 100), (''offset'', JInt 50)] \<and>
   get_url_params (\<lambda>j. Inl ParserError) [(''limit'', JInt 100)] None [] None (Some 0)
     = Inr [(''limit'', JInt 100)] \<and>
   get_url_params (\<lambda>j. Inl ParserError) [(''limit'', JInt 100)] None [] None None
     = Inr [(''limit'', JInt 100)]"
proof -
  have g: "get_url_params (\<lambda>j. Inl ParserError) [] None [] None (Some 50) = Inr [(''offset'', JInt 50)]"
    by (simp add: get_url_params_def get_starting_time_def dict_get_def dict_set_def)
  from offset_parameter [of "[]" "\<lambda>j. Inl ParserError" None "[]" None "Some 50" "[(''offset'', JInt 50)]"] g
  have "map_of [(''offset'', JInt 50)] ''offset'' = Some (JInt 50)" by simp
  then show ?thesis
    by (simp add: get_url_params_def get_starting_time_def dict_get_def dict_set_def)
qed

subsection \<open>One second later\<close>

lemma epoch_2024: "epoch_second utc_2024 = 1704067200"
  by (simp add: epoch_second_def toordinal_def days_before_year_def days_before_month_def utc_2024_def is_leap_def)

lemma days_before_month_Suc:
  assumes "1 \<le> m" "m < 12"
  shows "days_before_month y (Suc m) = days_before_month y m + days_in_month y m"
proof -
  from assms have "m = 1 \<or> m = 2 \<or> m = 3 \<or> m = 4 \<or> m = 5 \<or> m = 6 \<or> m = 7 \<or> m = 8 \<or>
    m = 9 \<or> m = 10 \<or> m = 11" by arith
  then show ?thesis
    by (elim disjE) (simp_all add: days_before_month_def days_in_month_def)
qed

lemma days_before_year_Suc:
  assumes "1 \<le> y"
  shows "days_before_year (Suc y) = days_before_year y + (if is_leap y then 366 else 365)"
proof -
  obtain x where y: "y = Suc x" using assms by (cases y) auto
  have d4: "Suc x div 4 = x div 4 + (if Suc x mod 4 = 0 then 1 else 0)" by (simp add: div_Suc)
  have d100: "Suc x div 100 = x div 100 + (if Suc x mod 100 = 0 then 1 else 0)"
    by (simp add: div_Suc)
  have d400: "Suc x div 400 = x div 400 + (if Suc x mod 400 = 0 then 1 else 0)"
    by (simp add: div_Suc)
  have m1: "Suc x mod 100 = 0 \<Longrightarrow> Suc x mod 4 = 0"
    using mod_mod_cancel [of 4 100 "Suc x"] by simp
  have m2: "Suc x mod 400 = 0 \<Longrightarrow> Suc x mod 100 = 0"
    using mod_mod_cancel [of 100 400 "Suc x"] by simp
  have i: "int (Suc x) div 4 = int (Suc x div 4)" "int (Suc x) div 100 = int (Suc x div 100)"
    "int (Suc x) div 400 = int (Suc x div 400)"
    "int x div 4 = int (x div 4)" "int x div 100 = int (x div 100)"
    "int x div 400 = int (x div 400)"
    by (simp_all only: zdiv_int of_nat_numeral)
  have "days_before_year (Suc (Suc x)) =
        int (Suc x) * 365 + int (Suc x div 4) - int (Suc x div 100) + int (Suc x div 400)"
    unfolding days_before_year_def Let_def i [symmetric] by simp
  moreover have "days_before_year (Suc x) =
        int x * 365 + int (x div 4) - int (x div 100) + int (x div 400)"
    unfolding days_before_year_def Let_def i [symmetric] by simp
  ultimately show ?thesis
    unfolding y is_leap_def d4 d100 d400 using m1 m2 by auto
qed

lemma add_second_epoch:
  assumes "valid_datetime d" "add_second d = Inr d'"
  shows "epoch_second d' = epoch_second d + 1 \<and> dt_utcoffset d' = dt_utcoffset d \<and>
         valid_datetime d'"
proof -
  from assms(1) have v: "1 \<le> dt_year d" "dt_year d \<le> 9999" "1 \<le> dt_month d" "dt_month d \<le> 12"
    "1 \<le> dt_day d" "dt_day d \<le> days_in_month (dt_year d) (dt_month d)"
    "dt_hour d < 24" "dt_minute d < 60" "dt_second d < 60" "dt_microsecond d < 1000000"
    by (simp_all add: valid_datetime_def)
  consider (s) "dt_second d < 59"
    | (m) "dt_second d = 59" "dt_minute d < 59"
    | (h) "dt_second d = 59" "dt_minute d = 59" "dt_hour d < 23"
    | (dd) "dt_second d = 59" "dt_minute d = 59" "dt_hour d = 23"
         "dt_day d < days_in_month (dt_year d) (dt_month d)"
    | (mo) "dt_second d = 59" "dt_minute d = 59" "dt_hour d = 23"
         "dt_day d = days_in_month (dt_year d) (dt_month d)" "dt_month d < 12"
    | (y) "dt_second d = 59" "dt_minute d = 59" "dt_hour d = 23"
         "dt_day d = days_in_month (dt_year d) (dt_month d)" "dt_month d = 12"
    using v by linarith
  then show ?thesis
  proof cases
    case s
    with assms(2) have "d' = d\<lparr>dt_second := dt_second d + 1\<rparr>" by (simp add: add_second_def)
    then show ?thesis using v s by (simp add: epoch_second_def toordinal_def valid_datetime_def)
  next
    case m
    with assms(2) have "d' = d\<lparr>dt_second := 0, dt_minute := dt_minute d + 1\<rparr>"
      by (simp add: add_second_def)
    then show ?thesis using v m by (simp add: epoch_second_def toordinal_def valid_datetime_def)
  next
    case h
    with assms(2) have "d' = d\<lparr>dt_second := 0, dt_minute := 0, dt_hour := dt_hour d + 1\<rparr>"
      by (simp add: add_second_def)
    then show ?thesis using v h by (simp add: epoch_second_def toordinal_def valid_datetime_def)
  next
    case dd
    with assms(2) have "d' = d\<lparr>dt_second := 0, dt_minute := 0, dt_hour := 0, dt_day := dt_day d + 1\<rparr>"
      by (simp add: add_second_def)
    then show ?thesis using v dd by (simp add: epoch_second_def toordinal_def valid_datetime_def)
  next
    case mo
    with assms(2) have d': "d' = d\<lparr>dt_second := 0, dt_minute := 0, dt_hour := 0, dt_day := 1,
        dt_month := dt_month d + 1\<rparr>"
      by (simp add: add_second_def)
    have "days_before_month (dt_year d) (Suc (dt_month d)) =
          days_before_month (dt_year d) (dt_month d) + dt_day d"
      using days_before_month_Suc [of "dt_month d" "dt_year d"] v mo by simp
    moreover have "1 \<le> days_in_month (dt_year d) (dt_month d + 1)"
      by (simp add: days_in_month_def)
    ultimately show ?thesis
      using v mo unfolding d' by (simp add: epoch_second_def toordinal_def valid_datetime_def)
  next
    case y
    have lt: "dt_year d < 9999"
    proof (rule ccontr)
      assume "\<not> dt_year d < 9999"
      with y assms(2) show False by (simp add: add_second_def)
    qed
    with y assms(2) have d': "d' = d\<lparr>dt_second := 0, dt_minute := 0, dt_hour := 0, dt_day := 1,
        dt_month := 1, dt_year := dt_year d + 1\<rparr>"
      by (simp add: add_second_def)
    have day: "dt_day d = 31" using y by (simp add: days_in_month_def)
    have dbm: "days_before_month (dt_year d) 12 = (if is_leap (dt_year d) then 335 else 334)"
      by (simp add: days_before_month_def)
    have dbm1: "days_before_month (Suc (dt_year d)) (Suc 0) = 0"
      by (simp add: days_before_month_def)
    from days_before_year_Suc [OF v(1)] dbm dbm1 day lt v y
    show ?thesis
      unfolding d' by (simp add: epoch_second_def toordinal_def valid_datetime_def days_in_month_def)
  qed
qed

lemma add_second_overflow:
  "valid_datetime d \<Longrightarrow>
   (add_second d = Inl OverflowError) =
   (dt_year d = 9999 \<and> dt_month d = 12 \<and> dt_day d = 31 \<and> dt_hour d = 23 \<and> dt_minute d = 59 \<and>
    dt_second d = 59)"
  by (auto simp: add_second_def valid_datetime_def days_in_month_def)

subsection \<open>The date filter\<close>

lemma get_starting_time_cases:
  "get_starting_time parse cfg bookmark =
     (if truthy (dict_get cfg ''start_date'')
      then (case parse (dict_get cfg ''start_date'') of
              Inl e \<Rightarrow> Inl e
            | Inr sd \<Rightarrow> Inr (Some (case bookmark of Some b \<Rightarrow> b | None \<Rightarrow> sd)))
      else Inr bookmark)"
  by (auto simp: get_starting_time_def Let_def split: sum.splits option.splits)

text \<open>
  What \<^verbatim>\<open>get_url_params\<close> does with the starting time. When none resolves, the
  parameters are the static ones and the offset, and no filter is added. When one resolves
  and the replication key is a non-empty string, the filter \<^verbatim>\<open>key[gt]\<close> is added: the
  calendar fields, printed with a Z, of the time one second later in the same zone. A
  bookmark wins over the configured start date, unless parsing that date raises first.
\<close>

theorem replication_filter:
  "(get_starting_time parse cfg bookmark = Inr None \<longrightarrow>
      get_url_params parse additional_params replication_key cfg bookmark next_page_token =
        Inr (params_before_filter additional_params next_page_token)) \<and>
   (get_starting_time parse cfg bookmark = Inr (Some d) \<and> replication_key = Some key \<and>
    key \<noteq> [] \<and> valid_datetime d \<and> add_second d = Inr d' \<longrightarrow>
      get_url_params parse additional_params replication_key cfg bookmark next_page_token =
        Inr (dict_set (params_before_filter additional_params next_page_token)
               (key @ ''[gt]'') (JStr (strftime d'))) \<and>
      epoch_second d' = epoch_second d + 1 \<and> dt_utcoffset d' = dt_utcoffset d) \<and>
   (\<forall>b. bookmark = Some b \<and> get_starting_time parse cfg bookmark \<noteq> Inr (Some b) \<longrightarrow>
        isl (get_starting_time parse cfg bookmark))"
proof (intro conjI impI allI)
  assume "get_starting_time parse cfg bookmark = Inr None"
  then show "get_url_params parse additional_params replication_key cfg bookmark next_page_token =
        Inr (params_before_filter additional_params next_page_token)"
    by (simp add: get_url_params_def params_before_filter_def Let_def)
next
  assume a: "get_starting_time parse cfg bookmark = Inr (Some d) \<and> replication_key = Some key \<and>
    key \<noteq> [] \<and> valid_datetime d \<and> add_second d = Inr d'"
  then show "get_url_params parse additional_params replication_key cfg bookmark next_page_token =
        Inr (dict_set (params_before_filter additional_params next_page_token)
               (key @ ''[gt]'') (JStr (strftime d')))"
    by (simp add: get_url_params_def params_before_filter_def Let_def)
  from a add_second_epoch [of d d']
  show "epoch_second d' = epoch_second d + 1" "dt_utcoffset d' = dt_utcoffset d" by simp_all
next
  fix b assume "bookmark = Some b \<and> get_starting_time parse cfg bookmark \<noteq> Inr (Some b)"
  then show "isl (get_starting_time parse cfg bookmark)"
    by (auto simp: get_starting_time_cases split: sum.splits if_splits)
qed

lemma strftime_utc_2024_01: "add_second utc_2024 = Inr (utc_2024\<lparr>dt_second := 1\<rparr>)"
  by (simp add: add_second_def utc_2024_def)

theorem replication_filter_witness:
  "get_url_params (\<lambda>j. Inl ParserError) [] (Some ''updated_at'') [] (Some utc_2024) None
     = Inr [(''updated_at[gt]'', JStr ''2024-01-01T00:00:01Z'')] \<and>
   get_url_params (\<lambda>j. Inr utc_2024) [] (Some ''updated_at'')
       [(''start_date'', JStr ''2024-01-01T00:00:00Z'')] None None
     = Inr [(''updated_at[gt]'', JStr ''2024-01-01T00:00:01Z'')] \<and>
   get_url_params (\<lambda>j. Inl ParserError) [] (Some ''updated_at'') [] None (Some 50)
     = Inr [(''offset'', JInt 50)]"
proof -
  have v: "valid_datetime utc_2024"
    by (simp add: valid_datetime_def utc_2024_def days_in_month_def)
  have s: "strftime (utc_2024\<lparr>dt_second := 1\<rparr>) = ''2024-01-01T00:00:01Z''"
    by (simp add: strftime_def utc_2024_def pad2_def)
  have g1: "get_starting_time (\<lambda>j. Inl ParserError) [] (Some utc_2024) = Inr (Some utc_2024)"
    by (simp add: get_starting_time_def dict_get_def)
  have g2: "get_starting_time (\<lambda>j. Inr utc_2024) [(''start_date'', JStr ''2024-01-01T00:00:00Z'')] None
      = Inr (Some utc_2024)"
    by (simp add: get_starting_time_def dict_get_def)
  have g3: "get_starting_time (\<lambda>j. Inl ParserError) [] None = Inr None"
    by (simp add: get_starting_time_def dict_get_def)
  from replication_filter [of "\<lambda>j. Inl ParserError" "[]" "Some utc_2024" "[]" "Some ''updated_at''" None
      utc_2024 "''updated_at''" "utc_2024\<lparr>dt_second := 1\<rparr>"] g1 v strftime_utc_2024_01 s
  have 1: "get_url_params (\<lambda>j. Inl ParserError) [] (Some ''updated_at'') [] (Some utc_2024) None
     = Inr [(''updated_at[gt]'', JStr ''2024-01-01T00:00:01Z'')]"
    by (simp add: params_before_filter_def dict_set_def)
  from replication_filter [of "\<lambda>j. Inr utc_2024" "[(''start_date'', JStr ''2024-01-01T00:00:00Z'')]" None "[]" "Some ''updated_at''" None
      utc_2024 "''updated_at''" "utc_2024\<lparr>dt_second := 1\<rparr>"] g2 v strftime_utc_2024_01 s
  have 2: "get_url_params (\<lambda>j. Inr utc_2024) [] (Some ''updated_at'')
       [(''start_date'', JStr ''2024-01-01T00:00:00Z'')] None None
     = Inr [(''updated_at[gt]'', JStr ''2024-01-01T00:00:01Z'')]"
    by (simp add: params_before_filter_def dict_set_def)
  from replication_filter [of "\<lambda>j. Inl ParserError" "[]" None "[]" "Some ''updated_at''" "Some 50"] g3
  have 3: "get_url_params (\<lambda>j. Inl ParserError) [] (Some ''updated_at'') [] None (Some 50)
     = Inr [(''offset'', JInt 50)]"
    by (simp add: params_before_filter_def dict_set_def)
  from 1 2 3 show ?thesis by simp
qed

text \<open>
  C6 on a starting time that is not in UTC. The configured start date
  \<^verbatim>\<open>2024-01-01T00:00:00+05:00\<close> is the instant 1704049200, five hours before the
  instant 1704067200 of \<^verbatim>\<open>2024-01-01T00:00:00Z\<close>. Line 138 prints the fields of the
  wall clock and the letter Z without converting to UTC, so both give the filter
  \<^verbatim>\<open>2024-01-01T00:00:01Z\<close>; the UTC rendering of the first, one second later, is
  \<^verbatim>\<open>2023-12-31T19:00:01Z\<close>.
\<close>

theorem replication_filter_ignores_offset:
  "epoch_second plus5_2024 = 1704049200 \<and> epoch_second utc_2024 = 1704067200 \<and>
   get_url_params (\<lambda>j. Inr plus5_2024) [] (Some ''updated_at'')
       [(''start_date'', JStr ''2024-01-01T00:00:00+05:00'')] None None
     = Inr [(''updated_at[gt]'', JStr ''2024-01-01T00:00:01Z'')] \<and>
   get_url_params (\<lambda>j. Inr utc_2024) [] (Some ''updated_at'')
       [(''start_date'', JStr ''2024-01-01T00:00:00Z'')] None None
     = Inr [(''updated_at[gt]'', JStr ''2024-01-01T00:00:01Z'')]"
  by (simp add: epoch_second_def toordinal_def days_before_year_def days_before_month_def
      is_leap_def plus5_2024_def utc_2024_def get_url_params_def get_starting_time_def
      dict_get_def add_second_def strftime_def pad2_def dict_set_def)

section \<open>Error messages\<close>

text \<open>
  A status from 400 to 499 is reported as a client error, and any other as a server error
  (lines 142 to 153).
\<close>

theorem response_error_message_kind:
  "(400 \<le> status_code r \<and> status_code r < 500 \<longrightarrow>
      response_error_message r =
        str_int (status_code r) @ '' Client Error: '' @ reason r @ '' for url: '' @ resp_url r @
        '' Response: '' @ resp_text r) \<and>
   (\<not> (400 \<le> status_code r \<and> status_code r < 500) \<longrightarrow>
      response_error_message r =
        str_int (status_code r) @ '' Server Error: '' @ reason r @ '' for url: '' @ resp_url r @
        '' Response: '' @ resp_text r)"
  by (simp add: response_error_message_def)

theorem response_error_message_kind_witness:
  "response_error_message
     \<lparr>status_code = 404, reason = ''Not Found'', resp_url = ''https://shop.example/admin/x'',
      resp_text = ''{}'', json_body = None\<rparr>
     = ''404 Client Error: Not Found for url: https://shop.example/admin/x Response: {}'' \<and>
   response_error_message
     \<lparr>status_code = 503, reason = ''Service Unavailable'',
      resp_url = ''https://shop.example/admin/x'', resp_text = [], json_body = None\<rparr>
     = ''503 Server Error: Service Unavailable for url: https://shop.example/admin/x Response: ''"
  using
    response_error_message_kind
      [of "\<lparr>status_code = 404, reason = ''Not Found'',
            resp_url = ''https://shop.example/admin/x'', resp_text = ''{}'', json_body = None\<rparr>"]
    response_error_message_kind
      [of "\<lparr>status_code = 503, reason = ''Service Unavailable'',
            resp_url = ''https://shop.example/admin/x'', resp_text = [], json_body = None\<rparr>"]
  by (simp add: str_int_def)

end
